theory Spec2Isabelle
  imports
    Complex_Main
    "HOL-Library.List_Lexorder"
    "HOL-Library.Char_ord"
    "HOL-Library.Sublist"
    "HOL-Library.Multiset"
begin

section \<open>Python values used by the scripts\<close>

text \<open>
  Strings are lists of characters; with the two order instances imported above, \<open>\<le>\<close> on
  \<^typ>\<open>string\<close> is the lexicographic order by character code, which is how Python compares
  \<open>str\<close> values.

  A dictionary key that the scripts read with \<open>.get(key)\<close> is an \<open>option\<close> field: \<open>None\<close>
  stands for an absent key and for the value \<open>None\<close> (JSON \<open>null\<close>), which \<open>.get\<close> does not
  tell apart. \<open>truthy\<close> is Python's truth value of such a field: \<open>None\<close> and the empty
  string are false.
\<close>

datatype error =
    ValueError
  | RuntimeError
  | KeyError
  | OSError
  | UnicodeDecodeError
  | FileNotFoundError
  | GithubException
  | DownloadError
  | MutagenError
  | TypeError
  | AttributeError

definition truthy :: "string option \<Rightarrow> bool" where
  "truthy v = (case v of None \<Rightarrow> False | Some s \<Rightarrow> s \<noteq> [])"

subsection \<open>Decimal formatting\<close>

definition digit :: "nat \<Rightarrow> char" where
  "digit d = ''0123456789'' ! d"

fun dec :: "nat \<Rightarrow> string" where
  "dec n = (if n < 10 then [digit n] else dec (n div 10) @ [digit (n mod 10)])"

declare dec.simps [simp del]

definition zfill :: "nat \<Rightarrow> string \<Rightarrow> string" where
  "zfill w s = replicate (w - length s) (CHR ''0'') @ s"

text \<open>The format specification \<open>02d\<close> of an f-string: the sign counts towards the width.\<close>

definition fmt_02d :: "int \<Rightarrow> string" where
  "fmt_02d i = (if i < 0 then ''-'' @ zfill 1 (dec (nat (- i))) else zfill 2 (dec (nat i)))"

subsection \<open>Naive datetimes\<close>

record datetime =
  year :: nat
  month :: nat
  day :: nat
  hour :: nat
  minute :: nat
  second :: nat
  microsecond :: nat

text \<open>
  \<open>datetime.isoformat()\<close>: \<open>YYYY-MM-DDTHH:MM:SS\<close>, followed by \<open>.ffffff\<close> when the
  microsecond is not zero.
\<close>

definition isoformat :: "datetime \<Rightarrow> string" where
  "isoformat dt =
     zfill 4 (dec (year dt)) @ ''-'' @ zfill 2 (dec (month dt)) @ ''-'' @ zfill 2 (dec (day dt))
     @ ''T'' @ zfill 2 (dec (hour dt)) @ '':'' @ zfill 2 (dec (minute dt)) @ '':''
     @ zfill 2 (dec (second dt))
     @ (if microsecond dt = 0 then [] else ''.'' @ zfill 6 (dec (microsecond dt)))"

text \<open>\<open>strftime('%Y-%m-%d-%H%M%S')\<close>, for years of four digits.\<close>

definition strftime_tag :: "datetime \<Rightarrow> string" where
  "strftime_tag dt =
     zfill 4 (dec (year dt)) @ ''-'' @ zfill 2 (dec (month dt)) @ ''-'' @ zfill 2 (dec (day dt))
     @ ''-'' @ zfill 2 (dec (hour dt)) @ zfill 2 (dec (minute dt)) @ zfill 2 (dec (second dt))"

section \<open>The state store (\<open>scripts/utils.py\<close>)\<close>

text \<open>
  The two dates of a record are read with \<open>video.get(key, default)\<close> and with \<open>video[key]\<close>
  inside a \<open>try\<close>, which tell an absent key from the value \<open>None\<close>: the key is absent, or
  its value is JSON \<open>null\<close>, or its value is a string.
\<close>

datatype date_field = Absent | Null | Text string

text \<open>
  One dictionary of the \<open>videos\<close> list of \<open>state/processed_videos.json\<close>. The keys read with
  \<open>video[...]\<close> are plain fields. \<open>release_tag\<close> and \<open>audio_url\<close> are \<open>None\<close> when absent or
  \<open>null\<close>. \<open>description\<close> and \<open>file_path\<close> are \<open>None\<close> when the key is absent, and strings
  otherwise.
\<close>

record video =
  video_id :: string
  title :: string
  description :: "string option"
  processed_date :: date_field
  pub_date :: date_field
  duration :: string
  file_size :: nat
  file_path :: "string option"
  release_tag :: "string option"
  audio_url :: "string option"

record state_doc =
  last_updated :: "string option"
  videos :: "video list"

text \<open>
  What \<open>load_state\<close> meets at \<open>get_state_file_path()\<close>:
  \<^item> \<open>Missing\<close>: \<open>state_file.exists()\<close> is false;
  \<^item> \<open>Unreadable\<close>: the file exists and \<open>open(state_file, 'r')\<close> raises \<open>OSError\<close>
    (no permission, a directory, an I/O error);
  \<^item> \<open>Undecodable\<close>: the file's bytes are not UTF-8, so reading it inside \<open>json.load\<close>
    raises \<open>UnicodeDecodeError\<close>;
  \<^item> \<open>Malformed\<close>: the file's text is not JSON (empty and cut-off files included), so
    \<open>json.load\<close> raises \<open>json.JSONDecodeError\<close>;
  \<^item> \<open>Stored d\<close>: the file holds the JSON text of the document \<open>d\<close>.
\<close>

datatype state_file =
    Missing
  | Unreadable
  | Undecodable
  | Malformed
  | Stored state_doc

definition empty_state :: state_doc where
  "empty_state = \<lparr>last_updated = None, videos = []\<rparr>"

text \<open>
  \<open>load_state\<close>: the only handler is \<open>except json.JSONDecodeError\<close>; \<open>OSError\<close> and
  \<open>UnicodeDecodeError\<close> are not subclasses of it and leave the function.
\<close>

definition load_state :: "state_file \<Rightarrow> error + state_doc" where
  "load_state f =
     (case f of
        Missing \<Rightarrow> Inr empty_state
      | Unreadable \<Rightarrow> Inl OSError
      | Undecodable \<Rightarrow> Inl UnicodeDecodeError
      | Malformed \<Rightarrow> Inr empty_state
      | Stored d \<Rightarrow> Inr d)"

text \<open>
  \<open>load_state\<close> with what it prints: the result and the lines printed, where \<open>path\<close> is
  \<open>str(state_file)\<close>. The only \<open>print\<close> is the warning of the handler.
\<close>

definition load_state_io :: "string \<Rightarrow> state_file \<Rightarrow> (error + state_doc) \<times> string list" where
  "load_state_io path f =
     (case f of
        Missing \<Rightarrow> (Inr empty_state, [])
      | Unreadable \<Rightarrow> (Inl OSError, [])
      | Undecodable \<Rightarrow> (Inl UnicodeDecodeError, [])
      | Malformed \<Rightarrow>
          (Inr empty_state,
           [''Warning: Invalid JSON in '' @ path @ '', returning empty state''])
      | Stored d \<Rightarrow> (Inr d, []))"

text \<open>
  \<open>save_state\<close> builds the document and writes it in place:
  \<open>with open(state_file, 'w') as f: json.dump(state, f, ...)\<close>. Opening with mode \<open>'w'\<close>
  truncates the file; \<open>json.dump\<close> then writes the text piece by piece. The points at which
  the run can stop, and the file each leaves behind:
  \<^item> \<open>Before_Open\<close>: nothing is written yet (an \<open>OSError\<close> of \<open>mkdir\<close> or \<open>open\<close> ends here
    too), the file is as it was;
  \<^item> \<open>After_Open\<close>: the file is empty;
  \<^item> \<open>During_Dump\<close>: the file holds a proper prefix of the text of a JSON object;
  \<^item> \<open>Completed\<close>: the file holds the whole document.
  An empty file and a proper prefix of a JSON object are not JSON.
\<close>

datatype save_point = Before_Open | After_Open | During_Dump | Completed

definition new_state :: "datetime \<Rightarrow> video list \<Rightarrow> state_doc" where
  "new_state now vs = \<lparr>last_updated = Some (isoformat now @ ''Z''), videos = vs\<rparr>"

definition save_state_upto :: "save_point \<Rightarrow> datetime \<Rightarrow> video list \<Rightarrow> state_file \<Rightarrow> state_file" where
  "save_state_upto p now vs f =
     (case p of
        Before_Open \<Rightarrow> f
      | After_Open \<Rightarrow> Malformed
      | During_Dump \<Rightarrow> Malformed
      | Completed \<Rightarrow> Stored (new_state now vs))"

definition save_state :: "datetime \<Rightarrow> video list \<Rightarrow> state_file \<Rightarrow> state_file" where
  "save_state now vs f = save_state_upto Completed now vs f"

definition get_processed_video_ids :: "state_file \<Rightarrow> error + string set" where
  "get_processed_video_ids f =
     (case load_state f of
        Inl e \<Rightarrow> Inl e
      | Inr state \<Rightarrow> Inr (set (map video_id (videos state))))"

subsection \<open>Audio duration\<close>

text \<open>
  \<open>get_audio_duration\<close>: \<open>mp3_length file_path\<close> is the outcome of
  \<open>int(MP3(file_path).info.length)\<close>, \<open>Inl\<close> when opening, parsing or converting raises an
  \<open>Exception\<close>. \<open>//\<close> and \<open>%\<close> are floor division and its remainder, as \<open>div\<close> and
  \<open>mod\<close> on \<^typ>\<open>int\<close>.
\<close>

definition hms :: "int \<Rightarrow> string" where
  "hms duration_seconds =
     (let hours = duration_seconds div 3600;
          minutes = (duration_seconds mod 3600) div 60;
          seconds = duration_seconds mod 60
      in fmt_02d hours @ '':'' @ fmt_02d minutes @ '':'' @ fmt_02d seconds)"

definition get_audio_duration :: "(string \<Rightarrow> error + int) \<Rightarrow> string \<Rightarrow> error + string" where
  "get_audio_duration mp3_length path =
     (case mp3_length path of
        Inr duration_seconds \<Rightarrow> Inr (hms duration_seconds)
      | Inl e \<Rightarrow> Inr ''00:00:00'')"

section \<open>Ingestion (\<open>scripts/download_audio.py\<close>)\<close>

text \<open>
  The dictionaries of yt-dlp. An \<open>info_dict\<close> is what \<open>extract_info\<close> returns; an element
  of its \<open>entries\<close> is \<open>None\<close> where the \<open>if entry:\<close> of the source is false (the value
  \<open>None\<close> or an empty dictionary), and an \<open>entry\<close> otherwise. A field is \<open>None\<close> where the
  dictionary has no such key.
\<close>

record entry =
  entry_id :: "string option"
  entry_title :: "string option"
  entry_upload_date :: "string option"

record info_dict =
  info_type :: "string option"
  info_entries :: "entry option list option"
  info_id :: "string option"
  info_title :: "string option"
  info_description :: "string option"
  info_upload_date :: "string option"

text \<open>The dictionaries that \<open>fetch_playlist_videos\<close> returns.\<close>

record playlist_video =
  pv_video_id :: string
  pv_title :: string
  pv_url :: string
  pv_upload_date :: "string option"

record full_metadata =
  md_title :: string
  md_description :: string
  md_upload_date :: "string option"

text \<open>
  Everything outside the program that one run of \<open>download_audio.py\<close> reads:
  \<^item> \<open>PLAYLIST_URL\<close>: the environment variable;
  \<^item> \<open>extract_info url\<close>: the result of \<open>ydl.extract_info(url, download=False)\<close> on the
    playlist, \<open>None\<close> when it is false;
  \<^item> \<open>ydl_download url\<close>: \<open>None\<close> when \<open>ydl.download([url])\<close> returns, the exception when
    it raises;
  \<^item> \<open>video_info url\<close>: the outcome of \<open>extract_info\<close> in \<open>get_full_video_metadata\<close>;
  \<^item> \<open>downloads_dir\<close>: the directory of \<open>ensure_downloads_dir\<close>;
  \<^item> \<open>mp3_stat path\<close>: the size of the file at \<open>path\<close> after the download, \<open>None\<close> when
    there is no such file;
  \<^item> \<open>mp3_length path\<close>: the outcome of \<open>int(MP3(path).info.length)\<close>;
  \<^item> \<open>strptime_Ymd s\<close>: \<open>datetime.strptime(s, '%Y%m%d')\<close>, \<open>None\<close> for \<open>ValueError\<close>;
  \<^item> \<open>utcnow_pub i\<close>, \<open>utcnow_processed i\<close>: the clock read by \<open>parse_upload_date\<close> and for
    \<open>processed_date\<close> while the video with id \<open>i\<close> is processed;
  \<^item> \<open>utcnow_save\<close>: the clock read by \<open>save_state\<close>.
\<close>

record ingest_env =
  PLAYLIST_URL :: "string option"
  extract_info :: "string \<Rightarrow> info_dict option"
  ydl_download :: "string \<Rightarrow> error option"
  video_info :: "string \<Rightarrow> error + info_dict"
  downloads_dir :: string
  mp3_stat :: "string \<Rightarrow> nat option"
  mp3_length :: "string \<Rightarrow> error + int"
  strptime_Ymd :: "string \<Rightarrow> datetime option"
  utcnow_pub :: "string \<Rightarrow> datetime"
  utcnow_processed :: "string \<Rightarrow> datetime"
  utcnow_save :: datetime

definition get_playlist_url :: "ingest_env \<Rightarrow> error + string" where
  "get_playlist_url env =
     (case PLAYLIST_URL env of
        None \<Rightarrow> Inl ValueError
      | Some playlist_url \<Rightarrow> if playlist_url = [] then Inl ValueError else Inr playlist_url)"

definition watch_url :: "string \<Rightarrow> string" where
  "watch_url i = ''https://www.youtube.com/watch?v='' @ i"

definition get_default :: "'a option \<Rightarrow> 'a \<Rightarrow> 'a" where
  "get_default v d = (case v of None \<Rightarrow> d | Some x \<Rightarrow> x)"

text \<open>The dictionary of lines 120 to 125, for an entry whose \<open>entry['id']\<close> is \<open>i\<close>.\<close>

definition entry_video :: "entry \<Rightarrow> string \<Rightarrow> playlist_video" where
  "entry_video e i =
     \<lparr>pv_video_id = i,
      pv_title = get_default (entry_title e) ''Unknown Title'',
      pv_url = watch_url i,
      pv_upload_date = entry_upload_date e\<rparr>"

text \<open>
  The loop over \<open>entries\<close> (lines 117 to 125): a false entry is passed by; \<open>entry['id']\<close>
  raises \<open>KeyError\<close> when the entry has no id.
\<close>

fun collect_entries :: "entry option list \<Rightarrow> playlist_video list \<Rightarrow> error + playlist_video list" where
  "collect_entries [] vs = Inr vs"
| "collect_entries (None # entries) vs = collect_entries entries vs"
| "collect_entries (Some e # entries) vs =
     (case entry_id e of
        None \<Rightarrow> Inl KeyError
      | Some i \<Rightarrow> collect_entries entries (vs @ [entry_video e i]))"

definition fetch_playlist_videos :: "info_dict option \<Rightarrow> error + playlist_video list" where
  "fetch_playlist_videos playlist_info =
     (case playlist_info of
        None \<Rightarrow> Inl RuntimeError
      | Some info \<Rightarrow>
          if info_type info \<noteq> Some ''playlist'' \<and> info_entries info = None then
            (case info_id info of
               None \<Rightarrow> Inl RuntimeError
             | Some i \<Rightarrow>
                 if i = [] then Inl RuntimeError
                 else Inr [\<lparr>pv_video_id = i,
                            pv_title = get_default (info_title info) ''Unknown Title'',
                            pv_url = watch_url i,
                            pv_upload_date = info_upload_date info\<rparr>])
          else
            (case collect_entries (get_default (info_entries info) []) [] of
               Inl e \<Rightarrow> Inl e
             | Inr vs \<Rightarrow> if vs = [] then Inl RuntimeError else Inr vs))"

definition download_video_audio :: "ingest_env \<Rightarrow> string \<Rightarrow> string \<Rightarrow> bool" where
  "download_video_audio env video_url vid =
     (case ydl_download env video_url of None \<Rightarrow> True | Some e \<Rightarrow> False)"

definition parse_upload_date :: "(string \<Rightarrow> datetime option) \<Rightarrow> datetime \<Rightarrow> string option \<Rightarrow> datetime" where
  "parse_upload_date strptime now upload_date =
     (case upload_date of
        None \<Rightarrow> now
      | Some s \<Rightarrow>
          if s = [] \<or> length s \<noteq> 8 then now
          else (case strptime s of Some d \<Rightarrow> d | None \<Rightarrow> now))"

definition get_full_video_metadata :: "ingest_env \<Rightarrow> string \<Rightarrow> full_metadata" where
  "get_full_video_metadata env video_url =
     (case video_info env video_url of
        Inr info \<Rightarrow>
          \<lparr>md_title = get_default (info_title info) ''Unknown Title'',
           md_description = get_default (info_description info) [],
           md_upload_date = info_upload_date info\<rparr>
      | Inl e \<Rightarrow>
          \<lparr>md_title = ''Unknown Title'', md_description = [], md_upload_date = None\<rparr>)"

definition get_file_size :: "ingest_env \<Rightarrow> string \<Rightarrow> error + nat" where
  "get_file_size env path = (case mp3_stat env path of None \<Rightarrow> Inl OSError | Some n \<Rightarrow> Inr n)"

definition mp3_file :: "ingest_env \<Rightarrow> string \<Rightarrow> string" where
  "mp3_file env vid = downloads_dir env @ ''/'' @ vid @ ''.mp3''"

text \<open>The dictionary \<open>video_info\<close> that lines 295 to 307 build.\<close>

definition make_video_info ::
  "ingest_env \<Rightarrow> playlist_video \<Rightarrow> full_metadata \<Rightarrow> string \<Rightarrow> nat \<Rightarrow> video" where
  "make_video_info env v md dur sz =
     \<lparr>video_id = pv_video_id v,
      title = md_title md,
      description = Some (md_description md),
      processed_date = Text (isoformat (utcnow_processed env (pv_video_id v)) @ ''Z''),
      pub_date = Text (isoformat (parse_upload_date (strptime_Ymd env)
                         (utcnow_pub env (pv_video_id v)) (pv_upload_date v)) @ ''Z''),
      duration = dur,
      file_size = sz,
      file_path = Some (mp3_file env (pv_video_id v)),
      release_tag = None,
      audio_url = None\<rparr>"

text \<open>
  The loop of \<open>process_new_videos\<close> over \<open>new_videos\<close>, with \<open>newly_processed\<close> as the
  accumulator. \<open>continue\<close> is the recursive call with the accumulator unchanged; an exception
  that nothing catches ends the loop.
\<close>

fun process_loop :: "ingest_env \<Rightarrow> playlist_video list \<Rightarrow> video list \<Rightarrow> error + video list" where
  "process_loop env [] newly_processed = Inr newly_processed"
| "process_loop env (v # rest) newly_processed =
     (if \<not> download_video_audio env (pv_url v) (pv_video_id v) then
        process_loop env rest newly_processed
      else
        let md = get_full_video_metadata env (pv_url v);
            path = mp3_file env (pv_video_id v)
        in if mp3_stat env path = None then process_loop env rest newly_processed
           else
             (case get_audio_duration (mp3_length env) path of
                Inl e \<Rightarrow> Inl e
              | Inr dur \<Rightarrow>
                  (case get_file_size env path of
                     Inl e \<Rightarrow> Inl e
                   | Inr sz \<Rightarrow>
                       process_loop env rest
                         (newly_processed @ [make_video_info env v md dur sz]))))"

text \<open>The playlist diff of line 250.\<close>

definition new_videos :: "string set \<Rightarrow> playlist_video list \<Rightarrow> playlist_video list" where
  "new_videos processed_ids playlist_videos =
     filter (\<lambda>v. pv_video_id v \<notin> processed_ids) playlist_videos"

definition process_new_videos :: "ingest_env \<Rightarrow> state_file \<Rightarrow> error + video list" where
  "process_new_videos env f =
     (case get_playlist_url env of
        Inl e \<Rightarrow> Inl e
      | Inr playlist_url \<Rightarrow>
          (case get_processed_video_ids f of
             Inl e \<Rightarrow> Inl e
           | Inr processed_ids \<Rightarrow>
               (case fetch_playlist_videos (extract_info env playlist_url) of
                  Inl e \<Rightarrow> Inl e
                | Inr playlist_videos \<Rightarrow>
                    if new_videos processed_ids playlist_videos = [] then Inr []
                    else process_loop env (new_videos processed_ids playlist_videos) [])))"

text \<open>
  \<open>main\<close> of \<open>download_audio.py\<close>: the exit status and the state file it leaves. Any
  exception is caught, printed and turned into status 1.
\<close>

definition download_main :: "ingest_env \<Rightarrow> state_file \<Rightarrow> nat \<times> state_file" where
  "download_main env f =
     (case process_new_videos env f of
        Inl e \<Rightarrow> (1, f)
      | Inr newly_processed \<Rightarrow>
          if newly_processed \<noteq> [] then
            (case load_state f of
               Inl e \<Rightarrow> (1, f)
             | Inr state \<Rightarrow> (0, save_state (utcnow_save env) (videos state @ newly_processed) f))
          else (0, f))"

section \<open>Release batcher (\<open>scripts/upload_to_release.py\<close>)\<close>

text \<open>
  A release as the run knows it: its tag, and for every video the run has given this tag, the
  video's id and the size of the uploaded file, in upload order.
\<close>

record release =
  tag_name :: string
  uploaded :: "(string \<times> nat) list"

definition cumulative_bytes :: "release \<Rightarrow> nat" where
  "cumulative_bytes r = sum_list (map snd (uploaded r))"

text \<open>
  Everything outside the program that one run of \<open>upload_to_release.py\<close> reads:
  \<^item> \<open>GITHUB_TOKEN\<close>, \<open>GITHUB_REPOSITORY\<close>: the environment variables;
  \<^item> \<open>file_stat path\<close>: \<open>st_size\<close> of the file at \<open>path\<close>, \<open>None\<close> when \<open>exists()\<close> is false;
  \<^item> \<open>utcnow_release n\<close>: the clock when the run creates a release after \<open>n\<close> earlier ones;
  \<^item> \<open>create_git_release tag\<close>: \<open>None\<close> when GitHub creates the release, the exception
    otherwise;
  \<^item> \<open>upload_asset tag path\<close>: the \<open>browser_download_url\<close> of the new asset, or the exception
    of \<open>release.upload_asset\<close>;
  \<^item> \<open>utcnow_upload_save\<close>: the clock read by \<open>save_state\<close>.
\<close>

record upload_env =
  GITHUB_TOKEN :: "string option"
  GITHUB_REPOSITORY :: "string option"
  file_stat :: "string \<Rightarrow> nat option"
  utcnow_release :: "nat \<Rightarrow> datetime"
  create_git_release :: "string \<Rightarrow> error option"
  upload_asset :: "string \<Rightarrow> string \<Rightarrow> error + string"
  utcnow_upload_save :: datetime

definition get_github_token :: "upload_env \<Rightarrow> error + string" where
  "get_github_token env =
     (case GITHUB_TOKEN env of
        None \<Rightarrow> Inl ValueError
      | Some token \<Rightarrow> if token = [] then Inl ValueError else Inr token)"

fun split_on :: "char \<Rightarrow> string \<Rightarrow> string list" where
  "split_on c [] = [[]]"
| "split_on c (x # xs) =
     (if x = c then [] # split_on c xs
      else (case split_on c xs of [] \<Rightarrow> [[x]] | p # ps \<Rightarrow> (x # p) # ps))"

definition get_repo_info :: "upload_env \<Rightarrow> error + string \<times> string" where
  "get_repo_info env =
     (case GITHUB_REPOSITORY env of
        None \<Rightarrow> Inl ValueError
      | Some repo_full_name \<Rightarrow>
          if repo_full_name = [] then Inl ValueError
          else (case split_on (CHR ''/'') repo_full_name of
                  [owner, repo_name] \<Rightarrow> Inr (owner, repo_name)
                | _ \<Rightarrow> Inl ValueError))"

definition create_release :: "upload_env \<Rightarrow> string \<Rightarrow> error + release" where
  "create_release env tag =
     (case create_git_release env tag of
        Some e \<Rightarrow> Inl e
      | None \<Rightarrow> Inr \<lparr>tag_name = tag, uploaded = []\<rparr>)"

definition upload_file_to_release :: "upload_env \<Rightarrow> release \<Rightarrow> string \<Rightarrow> string option" where
  "upload_file_to_release env rel path =
     (case upload_asset env (tag_name rel) path of
        Inr url \<Rightarrow> Some url
      | Inl e \<Rightarrow> None)"

text \<open>
  \<open>1.8 * 1024 * 1024 * 1024\<close> is a float a little above 1932735283.2; an integer is at
  least the one exactly when it is at least the other (that is, at least 1932735284).
\<close>

definition MAX_RELEASE_SIZE :: real where
  "MAX_RELEASE_SIZE = 1.8 * 1024 * 1024 * 1024"

text \<open>
  \<open>get_or_create_release\<close> returns the pair \<open>(release, size)\<close> of the source. The third
  component is not a variable of the script: it lists the releases that the variable
  \<open>current_release\<close> no longer points to, oldest first; they stay on GitHub as they are.
\<close>

definition get_or_create_release ::
  "upload_env \<Rightarrow> release option \<Rightarrow> nat \<Rightarrow> release list \<Rightarrow> error + release \<times> nat \<times> release list" where
  "get_or_create_release env current_release current_size sealed =
     (case current_release of
        None \<Rightarrow>
          (case create_release env (''release-'' @ strftime_tag (utcnow_release env (length sealed))) of
             Inl e \<Rightarrow> Inl e
           | Inr new_release \<Rightarrow> Inr (new_release, 0, sealed))
      | Some rel \<Rightarrow>
          if real current_size \<ge> MAX_RELEASE_SIZE then
            (case create_release env
                    (''release-'' @ strftime_tag (utcnow_release env (Suc (length sealed)))) of
               Inl e \<Rightarrow> Inl e
             | Inr new_release \<Rightarrow> Inr (new_release, 0, sealed @ [rel]))
          else Inr (rel, current_size, sealed))"

text \<open>
  The loop of \<open>upload_new_videos_to_release\<close>. It runs over \<open>videos_to_upload\<close>, whose
  elements are the very dictionaries of \<open>videos\<close>, and \<open>save_state(videos)\<close> writes all of
  \<open>videos\<close>; the model walks \<open>videos\<close> and passes by the ones that the comprehension of line
  164 leaves out. The state of the loop is \<open>(current_release, current_size, sealed)\<close>.
\<close>

type_synonym upload_state = "release option \<times> nat \<times> release list"

text \<open>The local variable \<open>file_path\<close> of the loop (line 179).\<close>

definition upload_path :: "video \<Rightarrow> string" where
  "upload_path v = get_default (file_path v) (''downloads/'' @ video_id v @ ''.mp3'')"

fun upload_loop ::
  "upload_env \<Rightarrow> video list \<Rightarrow> upload_state \<Rightarrow> error + video list \<times> upload_state" where
  "upload_loop env [] st = Inr ([], st)"
| "upload_loop env (v # rest) (current_release, current_size, sealed) =
     (if truthy (audio_url v) then
        (case upload_loop env rest (current_release, current_size, sealed) of
           Inl e \<Rightarrow> Inl e
         | Inr (vs, st) \<Rightarrow> Inr (v # vs, st))
      else
        (case file_stat env (upload_path v) of
           None \<Rightarrow>
             (case upload_loop env rest (current_release, current_size, sealed) of
                Inl e \<Rightarrow> Inl e
              | Inr (vs, st) \<Rightarrow> Inr (v # vs, st))
         | Some fsize \<Rightarrow>
             (case get_or_create_release env current_release current_size sealed of
                Inl e \<Rightarrow> Inl e
              | Inr (rel, sz, sealed') \<Rightarrow>
                  (if truthy (upload_file_to_release env rel (upload_path v)) then
                     (case upload_loop env rest
                             (Some (rel\<lparr>uploaded := uploaded rel @ [(video_id v, fsize)]\<rparr>),
                              sz + fsize, sealed') of
                        Inl e \<Rightarrow> Inl e
                      | Inr (vs, st) \<Rightarrow>
                          Inr (v\<lparr>audio_url := upload_file_to_release env rel (upload_path v),
                                  release_tag := Some (tag_name rel)\<rparr> # vs, st))
                   else
                     (case upload_loop env rest (Some rel, sz, sealed') of
                        Inl e \<Rightarrow> Inl e
                      | Inr (vs, st) \<Rightarrow> Inr (v # vs, st))))))"

text \<open>
  What one run leaves: the list \<open>videos\<close> at its end, the releases it created (oldest
  first, each with what it received), and the state file.
\<close>

record upload_result =
  up_videos :: "video list"
  up_releases :: "release list"
  up_file :: state_file

definition all_releases :: "upload_state \<Rightarrow> release list" where
  "all_releases st =
     (case st of (current_release, current_size, sealed) \<Rightarrow>
        sealed @ (case current_release of None \<Rightarrow> [] | Some rel \<Rightarrow> [rel]))"

definition upload_new_videos_to_release :: "upload_env \<Rightarrow> state_file \<Rightarrow> error + upload_result" where
  "upload_new_videos_to_release env f =
     (case get_github_token env of
        Inl e \<Rightarrow> Inl e
      | Inr token \<Rightarrow>
          (case get_repo_info env of
             Inl e \<Rightarrow> Inl e
           | Inr repo \<Rightarrow>
               (case load_state f of
                  Inl e \<Rightarrow> Inl e
                | Inr state \<Rightarrow>
                    if filter (\<lambda>v. \<not> truthy (audio_url v)) (videos state) = [] then
                      Inr \<lparr>up_videos = videos state, up_releases = [], up_file = f\<rparr>
                    else
                      (case upload_loop env (videos state) (None, 0, []) of
                         Inl e \<Rightarrow> Inl e
                       | Inr (vs, st) \<Rightarrow>
                           Inr \<lparr>up_videos = vs,
                                up_releases = all_releases st,
                                up_file = save_state (utcnow_upload_save env) vs f\<rparr>))))"

text \<open>\<open>main\<close> of \<open>upload_to_release.py\<close>: the exit status and the state file it leaves.\<close>

definition upload_main :: "upload_env \<Rightarrow> state_file \<Rightarrow> nat \<times> state_file" where
  "upload_main env f =
     (case upload_new_videos_to_release env f of
        Inl e \<Rightarrow> (1, f)
      | Inr r \<Rightarrow> (0, up_file r))"

section \<open>Feed assembler (\<open>scripts/generate_rss.py\<close>)\<close>

definition truncate_description :: "string \<Rightarrow> string" where
  "truncate_description d =
     (if length d > 500 then take 497 d @ ''...'' else d)"

text \<open>What \<open>add_episode_to_feed\<close> sets on the entry it adds.\<close>

record episode =
  ep_id :: string
  ep_title :: string
  ep_description :: string
  ep_enclosure_url :: string
  ep_enclosure_length :: string
  ep_pubDate :: string
  ep_itunes_duration :: string
  ep_itunes_summary :: string

text \<open>\<open>s.replace('Z', '+00:00')\<close>.\<close>

definition replace_Z :: "string \<Rightarrow> string" where
  "replace_Z s = concat (map (\<lambda>c. if c = CHR ''Z'' then ''+00:00'' else [c]) s)"

text \<open>
  The publication date of an entry. \<open>rfc2822 s\<close> is the outcome of
  \<open>format_rfc2822_date(datetime.fromisoformat(s))\<close>, \<open>None\<close> when \<open>fromisoformat\<close> raises
  \<open>ValueError\<close>. The handler catches the \<open>ValueError\<close> and the \<open>KeyError\<close> of the first
  attempt; \<open>None.replace\<close> raises \<open>AttributeError\<close>, which it does not catch, and in the
  handler nothing is caught.
\<close>

definition episode_fallback_date :: "(string \<Rightarrow> string option) \<Rightarrow> video \<Rightarrow> error + string" where
  "episode_fallback_date rfc2822 v =
     (case processed_date v of
        Absent \<Rightarrow> Inl KeyError
      | Null \<Rightarrow> Inl AttributeError
      | Text p \<Rightarrow> (case rfc2822 (replace_Z p) of None \<Rightarrow> Inl ValueError | Some d \<Rightarrow> Inr d))"

definition episode_pub_date :: "(string \<Rightarrow> string option) \<Rightarrow> video \<Rightarrow> error + string" where
  "episode_pub_date rfc2822 v =
     (case pub_date v of
        Absent \<Rightarrow> episode_fallback_date rfc2822 v
      | Null \<Rightarrow> Inl AttributeError
      | Text p \<Rightarrow>
          (case rfc2822 (replace_Z p) of
             None \<Rightarrow> episode_fallback_date rfc2822 v
           | Some d \<Rightarrow> Inr d))"

definition add_episode_to_feed :: "(string \<Rightarrow> string option) \<Rightarrow> video \<Rightarrow> error + episode option" where
  "add_episode_to_feed rfc2822 v =
     (if \<not> truthy (audio_url v) then Inr None
      else
        (case episode_pub_date rfc2822 v of
           Inl e \<Rightarrow> Inl e
         | Inr d \<Rightarrow>
             Inr (Some
               \<lparr>ep_id = video_id v,
                ep_title = title v,
                ep_description = truncate_description (get_default (description v) []),
                ep_enclosure_url = get_default (audio_url v) [],
                ep_enclosure_length = dec (file_size v),
                ep_pubDate = d,
                ep_itunes_duration = duration v,
                ep_itunes_summary = title v\<rparr>)))"

text \<open>
  \<open>list.sort(key=..., reverse=True)\<close>: a stable sort in descending order of the key, which
  Python runs as a stable ascending sort of the reversed list, reversed again.
\<close>

definition sort_reverse :: "('a \<Rightarrow> 'k::linorder) \<Rightarrow> 'a list \<Rightarrow> 'a list" where
  "sort_reverse key xs = rev (sort_key key (rev xs))"

text \<open>
  The key of line 158, \<open>v.get('pub_date', v.get('processed_date', ''))\<close>: a string, or
  \<open>None\<close> when the value found is \<open>null\<close>.
\<close>

definition feed_sort_key :: "video \<Rightarrow> string option" where
  "feed_sort_key v =
     (case pub_date v of
        Absent \<Rightarrow> (case processed_date v of Absent \<Rightarrow> Some [] | Null \<Rightarrow> None | Text p \<Rightarrow> Some p)
      | Null \<Rightarrow> None
      | Text p \<Rightarrow> Some p)"

text \<open>
  Lines 153 to 160. Sorting a list of two or more elements compares every key with another
  one, and a comparison with \<open>None\<close> raises \<open>TypeError\<close>; a shorter list is not compared at
  all. When no key is \<open>None\<close> the keys are strings.
\<close>

definition uploaded_videos :: "video list \<Rightarrow> error + video list" where
  "uploaded_videos vs =
     (if 2 \<le> length (filter (\<lambda>v. truthy (audio_url v)) vs) \<and>
         list_ex (\<lambda>v. feed_sort_key v = None) (filter (\<lambda>v. truthy (audio_url v)) vs)
      then Inl TypeError
      else Inr (sort_reverse (\<lambda>v. get_default (feed_sort_key v) [])
                  (filter (\<lambda>v. truthy (audio_url v)) vs)))"

definition load_podcast_config :: "(string \<times> string) list option \<Rightarrow> error + (string \<times> string) list" where
  "load_podcast_config config_file =
     (case config_file of
        None \<Rightarrow> Inl FileNotFoundError
      | Some config \<Rightarrow>
          if filter (\<lambda>field. field \<notin> fst ` set config)
               [''title'', ''description'', ''author'', ''language'', ''link''] \<noteq> []
          then Inl ValueError
          else Inr config)"

text \<open>The loop of lines 167 and 168: the entries in the order in which they are added.\<close>

fun add_episodes :: "(string \<Rightarrow> string option) \<Rightarrow> video list \<Rightarrow> error + episode list" where
  "add_episodes rfc2822 [] = Inr []"
| "add_episodes rfc2822 (v # vs) =
     (case add_episode_to_feed rfc2822 v of
        Inl e \<Rightarrow> Inl e
      | Inr ep \<Rightarrow>
          (case add_episodes rfc2822 vs of
             Inl e \<Rightarrow> Inl e
           | Inr eps \<Rightarrow> Inr ((case ep of None \<Rightarrow> [] | Some x \<Rightarrow> [x]) @ eps)))"

definition generate_rss_feed ::
  "(string \<times> string) list option \<Rightarrow> (string \<Rightarrow> string option) \<Rightarrow> state_file \<Rightarrow> error + episode list" where
  "generate_rss_feed config_file rfc2822 f =
     (case load_podcast_config config_file of
        Inl e \<Rightarrow> Inl e
      | Inr config \<Rightarrow>
          (case load_state f of
             Inl e \<Rightarrow> Inl e
           | Inr state \<Rightarrow>
               (case uploaded_videos (videos state) of
                  Inl e \<Rightarrow> Inl e
                | Inr sorted_videos \<Rightarrow> add_episodes rfc2822 sorted_videos)))"

section \<open>Notions used in the statements\<close>

text \<open>
  A playlist item is acquired when its download returns and the MP3 file is there: the two
  tests of the ingestion loop that end in \<open>continue\<close>.
\<close>

definition acquired :: "ingest_env \<Rightarrow> playlist_video \<Rightarrow> bool" where
  "acquired env v =
     (download_video_audio env (pv_url v) (pv_video_id v) \<and>
      mp3_stat env (mp3_file env (pv_video_id v)) \<noteq> None)"

text \<open>The record that the loop appends for an acquired item.\<close>

definition ingested :: "ingest_env \<Rightarrow> playlist_video \<Rightarrow> video" where
  "ingested env v =
     make_video_info env v (get_full_video_metadata env (pv_url v))
       (case mp3_length env (mp3_file env (pv_video_id v)) of
          Inr n \<Rightarrow> hms n | Inl e \<Rightarrow> ''00:00:00'')
       (get_default (mp3_stat env (mp3_file env (pv_video_id v))) 0)"

text \<open>The playlist, the download outcomes and the files are the same in two runs.\<close>

definition same_inputs :: "ingest_env \<Rightarrow> ingest_env \<Rightarrow> bool" where
  "same_inputs env env' =
     (PLAYLIST_URL env' = PLAYLIST_URL env \<and> extract_info env' = extract_info env \<and>
      ydl_download env' = ydl_download env \<and> downloads_dir env' = downloads_dir env \<and>
      mp3_stat env' = mp3_stat env)"

text \<open>
  Every upload into the release began while the release held less than the limit: the sizes
  of the files before the \<open>k\<close>-th one add up to less than \<open>MAX_RELEASE_SIZE\<close>.
\<close>

definition filled_below_limit :: "release \<Rightarrow> bool" where
  "filled_below_limit r =
     (\<forall>k < length (uploaded r).
        real (sum_list (map snd (take k (uploaded r)))) < MAX_RELEASE_SIZE)"

definition state_ok :: "upload_state \<Rightarrow> bool" where
  "state_ok st =
     (case st of (current_release, current_size, sealed) \<Rightarrow>
        (\<forall>r \<in> set sealed. filled_below_limit r \<and> tag_name r \<noteq> []) \<and>
        (case current_release of
           None \<Rightarrow> True
         | Some r \<Rightarrow>
             filled_below_limit r \<and> current_size = cumulative_bytes r \<and> tag_name r \<noteq> []))"

text \<open>
  How one run of the batcher may change a record: a published record stays as it is; any
  other record stays as it is or gets a URL and a tag, both not empty, from an upload of its
  file; and it does get them when its file is there and its upload succeeds in every release.
\<close>

definition upload_rel :: "upload_env \<Rightarrow> video \<Rightarrow> video \<Rightarrow> bool" where
  "upload_rel env v v' =
     ((truthy (audio_url v) \<longrightarrow> v' = v) \<and>
      (v' = v \<or>
         \<not> truthy (audio_url v) \<and> file_stat env (upload_path v) \<noteq> None \<and>
         (\<exists>tag url. tag \<noteq> [] \<and> url \<noteq> [] \<and> upload_asset env tag (upload_path v) = Inr url \<and>
            v' = v\<lparr>audio_url := Some url, release_tag := Some tag\<rparr>)) \<and>
      (\<not> truthy (audio_url v) \<and> file_stat env (upload_path v) \<noteq> None \<and>
         (\<forall>tag. \<exists>url. url \<noteq> [] \<and> upload_asset env tag (upload_path v) = Inr url)
       \<longrightarrow> truthy (audio_url v')))"

text \<open>
  The public URL and the release tag of a record are set together: both are \<open>None\<close>, or both
  are strings that are not empty.
\<close>

definition paired :: "video \<Rightarrow> bool" where
  "paired v =
     (audio_url v = None \<and> release_tag v = None \<or>
      truthy (audio_url v) \<and> truthy (release_tag v))"

text \<open>
  The state files that runs of the two writing scripts produce, from a checkout without a
  state file or with the empty one of \<open>setup.py\<close>.
\<close>

inductive reachable :: "state_file \<Rightarrow> bool" where
  fresh: "reachable Missing"
| initialized: "reachable (Stored empty_state)"
| downloaded: "reachable f \<Longrightarrow> reachable (snd (download_main env f))"
| uploaded: "reachable f \<Longrightarrow> reachable (snd (upload_main env f))"

section \<open>A worked scenario\<close>

text \<open>
  A playlist of three items and an unavailable entry. \<open>A\<close> (500 MB) downloads and has an
  upload date; \<open>B\<close> (2000 MB) downloads, but its metadata call fails and its MP3 cannot be
  parsed; \<open>C\<close> fails to download.
\<close>

definition scenario_playlist :: info_dict where
  "scenario_playlist =
     \<lparr>info_type = Some ''playlist'',
      info_entries = Some
        [Some \<lparr>entry_id = Some ''A'', entry_title = Some ''Item A'',
               entry_upload_date = Some ''20240103''\<rparr>,
         None,
         Some \<lparr>entry_id = Some ''B'', entry_title = None, entry_upload_date = None\<rparr>,
         Some \<lparr>entry_id = Some ''C'', entry_title = Some ''Item C'',
               entry_upload_date = Some ''20240104''\<rparr>],
      info_id = Some ''PLdemo'',
      info_title = Some ''Demo playlist'',
      info_description = None,
      info_upload_date = None\<rparr>"

definition scenario_ingest_env :: ingest_env where
  "scenario_ingest_env =
     \<lparr>PLAYLIST_URL = Some ''https://www.youtube.com/playlist?list=PLdemo'',
      extract_info = (\<lambda>url. if url = ''https://www.youtube.com/playlist?list=PLdemo''
                             then Some scenario_playlist else None),
      ydl_download = (\<lambda>url. if url = ''https://www.youtube.com/watch?v=C''
                             then Some DownloadError else None),
      video_info = (\<lambda>url. if url = ''https://www.youtube.com/watch?v=A''
                           then Inr \<lparr>info_type = Some ''video'', info_entries = None,
                                     info_id = Some ''A'', info_title = Some ''Item A'',
                                     info_description = Some ''About A'',
                                     info_upload_date = Some ''20240103''\<rparr>
                           else Inl DownloadError),
      downloads_dir = ''/repo/downloads'',
      mp3_stat = (\<lambda>path. if path = ''/repo/downloads/A.mp3'' then Some 524288000
                          else if path = ''/repo/downloads/B.mp3'' then Some 2097152000
                          else None),
      mp3_length = (\<lambda>path. if path = ''/repo/downloads/A.mp3'' then Inr 3725
                            else Inl MutagenError),
      strptime_Ymd = (\<lambda>s. if s = ''20240103''
                           then Some \<lparr>year = 2024, month = 1, day = 3, hour = 0, minute = 0,
                                      second = 0, microsecond = 0\<rparr>
                           else None),
      utcnow_pub = (\<lambda>i. \<lparr>year = 2024, month = 1, day = 5, hour = 10, minute = 0,
                          second = 0, microsecond = 250000\<rparr>),
      utcnow_processed = (\<lambda>i. \<lparr>year = 2024, month = 1, day = 5, hour = 10, minute = 0,
                                second = 1, microsecond = 0\<rparr>),
      utcnow_save = \<lparr>year = 2024, month = 1, day = 5, hour = 10, minute = 5,
                     second = 0, microsecond = 0\<rparr>\<rparr>"

definition item_A :: playlist_video where
  "item_A = \<lparr>pv_video_id = ''A'', pv_title = ''Item A'',
             pv_url = ''https://www.youtube.com/watch?v=A'', pv_upload_date = Some ''20240103''\<rparr>"

definition item_B :: playlist_video where
  "item_B = \<lparr>pv_video_id = ''B'', pv_title = ''Unknown Title'',
             pv_url = ''https://www.youtube.com/watch?v=B'', pv_upload_date = None\<rparr>"

definition item_C :: playlist_video where
  "item_C = \<lparr>pv_video_id = ''C'', pv_title = ''Item C'',
             pv_url = ''https://www.youtube.com/watch?v=C'', pv_upload_date = Some ''20240104''\<rparr>"

definition record_A :: video where
  "record_A =
     \<lparr>video_id = ''A'',
      title = ''Item A'',
      description = Some ''About A'',
      processed_date = Text ''2024-01-05T10:00:01Z'',
      pub_date = Text ''2024-01-03T00:00:00Z'',
      duration = ''01:02:05'',
      file_size = 524288000,
      file_path = Some ''/repo/downloads/A.mp3'',
      release_tag = None,
      audio_url = None\<rparr>"

definition record_B :: video where
  "record_B =
     \<lparr>video_id = ''B'',
      title = ''Unknown Title'',
      description = Some [],
      processed_date = Text ''2024-01-05T10:00:01Z'',
      pub_date = Text ''2024-01-05T10:00:00.250000Z'',
      duration = ''00:00:00'',
      file_size = 2097152000,
      file_path = Some ''/repo/downloads/B.mp3'',
      release_tag = None,
      audio_url = None\<rparr>"

definition scenario_ingested :: state_file where
  "scenario_ingested =
     Stored \<lparr>last_updated = Some ''2024-01-05T10:05:00Z'', videos = [record_A, record_B]\<rparr>"

definition scenario_upload_env :: upload_env where
  "scenario_upload_env =
     \<lparr>GITHUB_TOKEN = Some ''ghs_demo'',
      GITHUB_REPOSITORY = Some ''owner/repo'',
      file_stat = (\<lambda>path. if path = ''/repo/downloads/A.mp3'' then Some 524288000
                           else if path = ''/repo/downloads/B.mp3'' then Some 2097152000
                           else None),
      utcnow_release = (\<lambda>n. \<lparr>year = 2024, month = 1, day = 5, hour = 12, minute = 0,
                              second = n, microsecond = 0\<rparr>),
      create_git_release = (\<lambda>tag. None),
      upload_asset = (\<lambda>tag path. Inr (''https://github.invalid/'' @ tag @ path)),
      utcnow_upload_save = \<lparr>year = 2024, month = 1, day = 5, hour = 12, minute = 30,
                            second = 0, microsecond = 0\<rparr>\<rparr>"

definition published_A :: video where
  "published_A =
     record_A\<lparr>audio_url := Some ''https://github.invalid/release-2024-01-05-120000/repo/downloads/A.mp3'',
              release_tag := Some ''release-2024-01-05-120000''\<rparr>"

definition published_B :: video where
  "published_B =
     record_B\<lparr>audio_url := Some ''https://github.invalid/release-2024-01-05-120000/repo/downloads/B.mp3'',
              release_tag := Some ''release-2024-01-05-120000''\<rparr>"

definition scenario_release :: release where
  "scenario_release =
     \<lparr>tag_name = ''release-2024-01-05-120000'',
      uploaded = [(''A'', 524288000), (''B'', 2097152000)]\<rparr>"

definition scenario_published :: state_file where
  "scenario_published =
     Stored \<lparr>last_updated = Some ''2024-01-05T12:30:00Z'', videos = [published_A, published_B]\<rparr>"

text \<open>The playlist with its first entry listed twice, and with an entry that has no id.\<close>

definition duplicate_playlist :: info_dict where
  "duplicate_playlist =
     scenario_playlist\<lparr>info_entries := Some
        [Some \<lparr>entry_id = Some ''A'', entry_title = Some ''Item A'',
               entry_upload_date = Some ''20240103''\<rparr>,
         Some \<lparr>entry_id = Some ''A'', entry_title = Some ''Item A'',
               entry_upload_date = Some ''20240103''\<rparr>]\<rparr>"

definition broken_playlist :: info_dict where
  "broken_playlist =
     scenario_playlist\<lparr>info_entries := Some
        [Some \<lparr>entry_id = None, entry_title = Some ''[Private video]'',
               entry_upload_date = None\<rparr>,
         Some \<lparr>entry_id = Some ''A'', entry_title = Some ''Item A'',
               entry_upload_date = Some ''20240103''\<rparr>]\<rparr>"

text \<open>A published record with the id \<open>i\<close> and the publication date \<open>d\<close>.\<close>

definition feed_record :: "string \<Rightarrow> string \<Rightarrow> video" where
  "feed_record i d = published_A\<lparr>video_id := i, pub_date := Text d\<rparr>"

text \<open>
  The order of naive datetimes: field by field, from the year down to the microsecond.
\<close>

definition datetime_less :: "datetime \<Rightarrow> datetime \<Rightarrow> bool" where
  "datetime_less a b =
     ([year a, month a, day a, hour a, minute a, second a, microsecond a]
        < [year b, month b, day b, hour b, minute b, second b, microsecond b])"

text \<open>
  Midnight of 1 January 2024, which is what \<open>strptime\<close> makes of the upload date
  \<open>20240101\<close>, and the clock half a second later.
\<close>

definition stamp_midnight :: datetime where
  "stamp_midnight =
     \<lparr>year = 2024, month = 1, day = 1, hour = 0, minute = 0, second = 0, microsecond = 0\<rparr>"

definition stamp_later :: datetime where
  "stamp_later =
     \<lparr>year = 2024, month = 1, day = 1, hour = 0, minute = 0, second = 0, microsecond = 500000\<rparr>"

text \<open>The answers of \<open>format_rfc2822_date(datetime.fromisoformat(s))\<close> that the scenario needs.\<close>

definition scenario_rfc2822 :: "string \<Rightarrow> string option" where
  "scenario_rfc2822 s =
     (if s = ''2024-01-03T00:00:00+00:00'' then Some ''Wed, 03 Jan 2024 00:00:00 GMT''
      else if s = ''2024-01-05T10:00:00.250000+00:00'' then Some ''Fri, 05 Jan 2024 10:00:00 GMT''
      else if s = ''2024-01-01T00:00:00+00:00'' then Some ''Mon, 01 Jan 2024 00:00:00 GMT''
      else if s = ''2024-01-01T00:00:00.500000+00:00'' then Some ''Mon, 01 Jan 2024 00:00:00 GMT''
      else None)"

definition scenario_config :: "(string \<times> string) list" where
  "scenario_config =
     [(''title'', ''Show''), (''description'', ''A show''), (''author'', ''Me''),
      (''language'', ''en''), (''link'', ''https://example.invalid/'')]"

text \<open>
  A state with two published records: the first was discovered half a second after
  midnight and has no upload date, the second has the upload date \<open>20240101\<close>.
\<close>

definition midnight_state :: state_file where
  "midnight_state =
     Stored \<lparr>last_updated = None,
             videos = [feed_record ''later'' ''2024-01-01T00:00:00.500000Z'',
                       feed_record ''midnight'' ''2024-01-01T00:00:00Z'']\<rparr>"

definition episode_A :: episode where
  "episode_A =
     \<lparr>ep_id = ''A'',
      ep_title = ''Item A'',
      ep_description = ''About A'',
      ep_enclosure_url = ''https://github.invalid/release-2024-01-05-120000/repo/downloads/A.mp3'',
      ep_enclosure_length = ''524288000'',
      ep_pubDate = ''Wed, 03 Jan 2024 00:00:00 GMT'',
      ep_itunes_duration = ''01:02:05'',
      ep_itunes_summary = ''Item A''\<rparr>"

section \<open>Evaluating the scenario\<close>

lemma dec_numeral:
  "dec (numeral k) =
     (if numeral k < (10::nat) then [digit (numeral k)]
      else dec (numeral k div 10) @ [digit (numeral k mod 10)])"
  by (rule dec.simps)

lemma dec_0: "dec 0 = ''0''"
  by (simp add: dec.simps [of 0] digit_def)

lemma dec_Suc_0: "dec (Suc 0) = ''1''"
  by (simp add: dec.simps [of "Suc 0"] digit_def)

lemmas eval_dec = dec_numeral dec_0 dec_Suc_0 digit_def zfill_def

lemma hms_example: "hms 3725 = ''01:02:05''"
  by (simp add: hms_def fmt_02d_def eval_dec)

lemma isoformat_example:
  "isoformat \<lparr>year = 2024, month = 1, day = 3, hour = 0, minute = 0, second = 0, microsecond = 0\<rparr>
     = ''2024-01-03T00:00:00''"
  by (simp add: isoformat_def eval_dec)

lemma fetch_scenario:
  "fetch_playlist_videos (Some scenario_playlist) = Inr [item_A, item_B, item_C]"
  by (simp add: fetch_playlist_videos_def scenario_playlist_def item_A_def item_B_def item_C_def
      get_default_def watch_url_def entry_video_def)

lemma fetch_duplicate:
  "fetch_playlist_videos (Some duplicate_playlist) = Inr [item_A, item_A]"
  by (simp add: fetch_playlist_videos_def duplicate_playlist_def scenario_playlist_def item_A_def
      get_default_def watch_url_def entry_video_def)

lemma ingested_A: "ingested scenario_ingest_env item_A = record_A"
  by (simp add: ingested_def make_video_info_def scenario_ingest_env_def item_A_def record_A_def
      get_full_video_metadata_def mp3_file_def get_default_def parse_upload_date_def
      isoformat_def eval_dec hms_def fmt_02d_def)

lemma ingested_B: "ingested scenario_ingest_env item_B = record_B"
  by (simp add: ingested_def make_video_info_def scenario_ingest_env_def item_B_def record_B_def
      get_full_video_metadata_def mp3_file_def get_default_def parse_upload_date_def
      isoformat_def eval_dec hms_def fmt_02d_def)

lemma acquired_scenario:
  "acquired scenario_ingest_env item_A" "acquired scenario_ingest_env item_B"
  "\<not> acquired scenario_ingest_env item_C"
  by (simp_all add: acquired_def scenario_ingest_env_def item_A_def item_B_def item_C_def
      download_video_audio_def mp3_file_def)

lemma add_episode_A:
  "add_episode_to_feed scenario_rfc2822 (published_A\<lparr>description := Some d\<rparr>)
     = Inr (Some (episode_A\<lparr>ep_description := truncate_description d\<rparr>))"
  by (simp add: add_episode_to_feed_def published_A_def record_A_def episode_A_def
      episode_pub_date_def replace_Z_def truthy_def get_default_def scenario_rfc2822_def eval_dec)

section \<open>The ingestion loop\<close>

lemma process_loop_eq:
  "process_loop env vs acc = Inr (acc @ map (ingested env) (filter (acquired env) vs))"
proof (induction vs arbitrary: acc)
  case Nil
  then show ?case by simp
next
  case (Cons v vs)
  show ?case
  proof (cases "acquired env v")
    case True
    then obtain sz where sz: "mp3_stat env (mp3_file env (pv_video_id v)) = Some sz"
      and dl: "download_video_audio env (pv_url v) (pv_video_id v)"
      by (auto simp: acquired_def)
    from sz dl True show ?thesis
      by (simp add: Cons.IH Let_def get_audio_duration_def get_file_size_def ingested_def
          get_default_def split: sum.splits)
  next
    case False
    then show ?thesis
      by (auto simp: Cons.IH Let_def acquired_def)
  qed
qed

lemma video_id_ingested: "video_id (ingested env v) = pv_video_id v"
  by (simp add: ingested_def make_video_info_def)

lemma process_new_videos_Inr:
  assumes "process_new_videos env f = Inr newly"
  obtains url st pl where
    "get_playlist_url env = Inr url" "load_state f = Inr st"
    "fetch_playlist_videos (extract_info env url) = Inr pl"
    "newly = map (ingested env) (filter (acquired env) (new_videos (set (map video_id (videos st))) pl))"
  using assms
  by (auto simp: process_new_videos_def get_processed_video_ids_def process_loop_eq
      split: sum.splits if_splits)

lemma acquired_same: "same_inputs env env' \<Longrightarrow> acquired env' v = acquired env v"
  by (simp add: same_inputs_def acquired_def download_video_audio_def mp3_file_def)

lemma second_run_empty:
  assumes same: "same_inputs env env'" and ok: "fst (download_main env f) = 0"
  shows "process_new_videos env' (snd (download_main env f)) = Inr []"
proof -
  from ok obtain newly where p: "process_new_videos env f = Inr newly"
    by (auto simp: download_main_def split: sum.splits)
  from p obtain url st pl where
    url: "get_playlist_url env = Inr url" and st: "load_state f = Inr st"
    and pl: "fetch_playlist_videos (extract_info env url) = Inr pl"
    and newly: "newly = map (ingested env) (filter (acquired env) (new_videos (set (map video_id (videos st))) pl))"
    by (rule process_new_videos_Inr)
  let ?f1 = "snd (download_main env f)"
  have "\<exists>st1. load_state ?f1 = Inr st1 \<and>
          set (map video_id (videos st1)) = set (map video_id (videos st)) \<union> set (map video_id newly)"
  proof (cases "newly = []")
    case True
    with p st show ?thesis by (simp add: download_main_def)
  next
    case False
    with p st show ?thesis
      by (simp add: download_main_def save_state_def save_state_upto_def new_state_def
          load_state_def [of "Stored _"] image_Un)
  qed
  then obtain st1 where st1: "load_state ?f1 = Inr st1"
    and ids1: "set (map video_id (videos st1)) = set (map video_id (videos st)) \<union> set (map video_id newly)"
    by blast
  have url': "get_playlist_url env' = Inr url"
    using url same by (simp add: get_playlist_url_def same_inputs_def)
  have pl': "fetch_playlist_videos (extract_info env' url) = Inr pl"
    using pl same by (simp add: same_inputs_def)
  have none: "filter (acquired env') (new_videos (set (map video_id (videos st1))) pl) = []"
  proof (rule ccontr)
    assume "filter (acquired env') (new_videos (set (map video_id (videos st1))) pl) \<noteq> []"
    then obtain v where v: "v \<in> set pl" "pv_video_id v \<notin> set (map video_id (videos st1))"
      "acquired env' v"
      by (auto simp: new_videos_def filter_empty_conv)
    from v(3) same have a: "acquired env v" by (simp add: acquired_same)
    from v(2) ids1 have n0: "pv_video_id v \<notin> set (map video_id (videos st))"
      and n1: "pv_video_id v \<notin> set (map video_id newly)" by auto
    from v(1) n0 a have "ingested env v \<in> set newly"
      by (simp add: newly new_videos_def)
    then have "pv_video_id v \<in> set (map video_id newly)"
      using video_id_ingested [of env v] by force
    with n1 show False by simp
  qed
  show ?thesis
    using url' st1 pl' none
    by (simp add: process_new_videos_def get_processed_video_ids_def process_loop_eq)
qed

lemma collect_entries_drop:
  "collect_entries (filter (\<lambda>e. e \<noteq> None) entries) vs = collect_entries entries vs"
  by (induction entries vs rule: collect_entries.induct) (auto split: option.splits)

lemma collect_entries_present:
  "\<forall>e. Some e \<in> set entries \<longrightarrow> entry_id e \<noteq> None \<Longrightarrow>
   collect_entries entries vs
     = Inr (vs @ map (\<lambda>e. entry_video e (the (entry_id e))) [e. Some e \<leftarrow> entries])"
  by (induction entries vs rule: collect_entries.induct) auto

section \<open>The upload loop\<close>

lemma filled_below_limit_append:
  assumes "filled_below_limit r" "real (cumulative_bytes r) < MAX_RELEASE_SIZE"
  shows "filled_below_limit (r\<lparr>uploaded := uploaded r @ [x]\<rparr>)"
  unfolding filled_below_limit_def
proof (intro allI impI)
  fix k assume k: "k < length (uploaded (r\<lparr>uploaded := uploaded r @ [x]\<rparr>))"
  show "real (sum_list (map snd (take k (uploaded (r\<lparr>uploaded := uploaded r @ [x]\<rparr>))))) < MAX_RELEASE_SIZE"
  proof (cases "k < length (uploaded r)")
    case True
    with assms(1) show ?thesis by (simp add: filled_below_limit_def)
  next
    case False
    with k have "k = length (uploaded r)" by simp
    with assms(2) show ?thesis by (simp add: cumulative_bytes_def)
  qed
qed

lemma get_or_create_release_ok:
  assumes "get_or_create_release env cur sz sealed = Inr (rel, sz', sealed')"
    and "state_ok (cur, sz, sealed)"
  shows "state_ok (Some rel, sz', sealed') \<and> real sz' < MAX_RELEASE_SIZE"
  using assms
  by (auto simp: get_or_create_release_def create_release_def state_ok_def filled_below_limit_def
      cumulative_bytes_def MAX_RELEASE_SIZE_def
      split: option.splits if_splits sum.splits)

lemma upload_loop_state_ok:
  "upload_loop env vs st = Inr (out, st') \<Longrightarrow> state_ok st \<Longrightarrow> state_ok st'"
proof (induction env vs st arbitrary: out st' rule: upload_loop.induct)
  case (1 env st)
  then show ?case by simp
next
  case (2 env v rest cur sz sealed)
  show ?case
  proof (cases "truthy (audio_url v)")
    case True
    with 2 show ?thesis by (auto split: sum.splits)
  next
    case nt: False
    show ?thesis
    proof (cases "file_stat env (upload_path v)")
      case None
      with 2 nt show ?thesis by (auto split: sum.splits)
    next
      case (Some fsize)
      from "2.prems"(1) nt Some obtain rel sz1 sealed1 where
        g: "get_or_create_release env cur sz sealed = Inr (rel, sz1, sealed1)"
        by (auto split: sum.splits)
      from get_or_create_release_ok [OF g "2.prems"(2)]
      have ok1: "state_ok (Some rel, sz1, sealed1)" and lt: "real sz1 < MAX_RELEASE_SIZE" by auto
      show ?thesis
      proof (cases "truthy (upload_file_to_release env rel (upload_path v))")
        case True
        from ok1 lt have "state_ok (Some (rel\<lparr>uploaded := uploaded rel @ [(video_id v, fsize)]\<rparr>), sz1 + fsize, sealed1)"
          using filled_below_limit_append [of rel "(video_id v, fsize)"]
          by (simp add: state_ok_def cumulative_bytes_def)
        with 2 nt Some g True show ?thesis
          by (auto split: sum.splits)
      next
        case False
        with 2 nt Some g ok1 show ?thesis
          by (auto split: sum.splits)
      qed
    qed
  qed
qed


lemma upload_rel_refl_published: "truthy (audio_url v) \<Longrightarrow> upload_rel env v v"
  by (simp add: upload_rel_def)

lemma upload_rel_refl_missing:
  "file_stat env (upload_path v) = None \<Longrightarrow> upload_rel env v v"
  by (simp add: upload_rel_def)

lemma upload_rel_failed:
  "\<not> truthy (upload_file_to_release env rel (upload_path v)) \<Longrightarrow> \<not> truthy (audio_url v)
    \<Longrightarrow> upload_rel env v v"
proof -
  assume f: "\<not> truthy (upload_file_to_release env rel (upload_path v))"
  have "\<not> (\<forall>tag. \<exists>url. url \<noteq> [] \<and> upload_asset env tag (upload_path v) = Inr url)"
  proof
    assume "\<forall>tag. \<exists>url. url \<noteq> [] \<and> upload_asset env tag (upload_path v) = Inr url"
    then obtain url where "url \<noteq> []" "upload_asset env (tag_name rel) (upload_path v) = Inr url"
      by blast
    with f show False by (simp add: upload_file_to_release_def truthy_def)
  qed
  then show ?thesis by (simp add: upload_rel_def)
qed

lemma upload_rel_done:
  "truthy (upload_file_to_release env rel (upload_path v)) \<Longrightarrow> \<not> truthy (audio_url v)
    \<Longrightarrow> file_stat env (upload_path v) = Some fsize \<Longrightarrow> tag_name rel \<noteq> []
    \<Longrightarrow> upload_rel env v
          (v\<lparr>audio_url := upload_file_to_release env rel (upload_path v),
             release_tag := Some (tag_name rel)\<rparr>)"
  by (auto simp: upload_rel_def upload_file_to_release_def truthy_def split: sum.splits option.splits)

lemma upload_loop_rel:
  "upload_loop env vs st = Inr (out, st') \<Longrightarrow> state_ok st \<Longrightarrow> list_all2 (upload_rel env) vs out"
proof (induction env vs st arbitrary: out st' rule: upload_loop.induct)
  case (1 env st)
  then show ?case by simp
next
  case (2 env v rest cur sz sealed)
  show ?case
  proof (cases "truthy (audio_url v)")
    case True
    with 2 show ?thesis by (auto split: sum.splits intro: upload_rel_refl_published)
  next
    case nt: False
    show ?thesis
    proof (cases "file_stat env (upload_path v)")
      case None
      with 2 nt show ?thesis
        by (auto split: sum.splits intro: upload_rel_refl_missing)
    next
      case (Some fsize)
      from "2.prems"(1) nt Some obtain rel sz1 sealed1 where
        g: "get_or_create_release env cur sz sealed = Inr (rel, sz1, sealed1)"
        by (auto split: sum.splits)
      from get_or_create_release_ok [OF g "2.prems"(2)]
      have ok1: "state_ok (Some rel, sz1, sealed1)" and lt: "real sz1 < MAX_RELEASE_SIZE" by auto
      then have tag: "tag_name rel \<noteq> []" by (simp add: state_ok_def)
      show ?thesis
      proof (cases "truthy (upload_file_to_release env rel (upload_path v))")
        case True
        from ok1 lt have ok2: "state_ok (Some (rel\<lparr>uploaded := uploaded rel @ [(video_id v, fsize)]\<rparr>), sz1 + fsize, sealed1)"
          using filled_below_limit_append [of rel "(video_id v, fsize)"]
          by (simp add: state_ok_def cumulative_bytes_def)
        from "2.prems"(1) nt Some g True obtain vs' where
          rec: "upload_loop env rest (Some (rel\<lparr>uploaded := uploaded rel @ [(video_id v, fsize)]\<rparr>), sz1 + fsize, sealed1) = Inr (vs', st')"
          and out: "out = v\<lparr>audio_url := upload_file_to_release env rel (upload_path v), release_tag := Some (tag_name rel)\<rparr> # vs'"
          by (auto split: sum.splits)
        from "2.IH"(3) [OF nt Some g refl refl True rec ok2]
        have "list_all2 (upload_rel env) rest vs'" .
        moreover have "upload_rel env v (v\<lparr>audio_url := upload_file_to_release env rel (upload_path v), release_tag := Some (tag_name rel)\<rparr>)"
          using upload_rel_done [of env rel v fsize] True nt Some tag by simp
        ultimately show ?thesis using out by simp
      next
        case False
        from "2.prems"(1) nt Some g False obtain vs' where
          rec: "upload_loop env rest (Some rel, sz1, sealed1) = Inr (vs', st')"
          and out: "out = v # vs'"
          by (auto split: sum.splits)
        from "2.IH"(4) [OF nt Some g refl refl False rec ok1]
        have "list_all2 (upload_rel env) rest vs'" .
        moreover have "upload_rel env v v"
          using upload_rel_failed [of env rel v] False nt by simp
        ultimately show ?thesis using out by simp
      qed
    qed
  qed
qed

lemma upload_new_videos_cases:
  assumes "upload_new_videos_to_release env f = Inr r" "load_state f = Inr d"
  obtains (noop) "filter (\<lambda>v. \<not> truthy (audio_url v)) (videos d) = []"
      "r = \<lparr>up_videos = videos d, up_releases = [], up_file = f\<rparr>"
  | (run) st where "upload_loop env (videos d) (None, 0, []) = Inr (up_videos r, st)"
      "up_releases r = all_releases st"
      "up_file r = save_state (utcnow_upload_save env) (up_videos r) f"
  using assms
  by (auto simp: upload_new_videos_to_release_def split: sum.splits if_splits)

lemma state_ok_initial: "state_ok (None, 0, [])"
  by (simp add: state_ok_def)

lemma state_ok_all_releases:
  "state_ok st \<Longrightarrow> b \<in> set (all_releases st) \<Longrightarrow> filled_below_limit b"
  by (auto simp: state_ok_def all_releases_def split: prod.splits option.splits)

lemma filled_below_limit_butlast:
  assumes "filled_below_limit b"
  shows "real (sum_list (map snd (butlast (uploaded b)))) < MAX_RELEASE_SIZE"
proof (cases "uploaded b = []")
  case True
  then show ?thesis by (simp add: MAX_RELEASE_SIZE_def)
next
  case False
  then have "length (uploaded b) - 1 < length (uploaded b)" by simp
  with assms have "real (sum_list (map snd (take (length (uploaded b) - 1) (uploaded b)))) < MAX_RELEASE_SIZE"
    unfolding filled_below_limit_def by blast
  then show ?thesis by (simp add: butlast_conv_take)
qed

lemma upload_new_videos_rel:
  assumes "upload_new_videos_to_release env f = Inr r" "load_state f = Inr d"
  shows "list_all2 (upload_rel env) (videos d) (up_videos r)"
  using assms
proof (cases rule: upload_new_videos_cases)
  case noop
  then have "\<forall>v \<in> set (videos d). truthy (audio_url v)"
    by (simp add: filter_empty_conv)
  then have "list_all2 (upload_rel env) (videos d) (videos d)"
    by (simp add: list_all2_same upload_rel_refl_published)
  with noop show ?thesis by simp
next
  case (run st)
  then show ?thesis
    using upload_loop_rel [OF run(1) state_ok_initial] by simp
qed

lemma upload_new_videos_filled:
  assumes "upload_new_videos_to_release env f = Inr r" "b \<in> set (up_releases r)"
  shows "filled_below_limit b"
proof -
  from assms(1) obtain d where d: "load_state f = Inr d"
    by (auto simp: upload_new_videos_to_release_def split: sum.splits)
  from assms(1) d show ?thesis
  proof (cases rule: upload_new_videos_cases)
    case noop
    with assms(2) show ?thesis by simp
  next
    case (run st)
    from upload_loop_state_ok [OF run(1) state_ok_initial] assms(2) run(2)
    show ?thesis by (simp add: state_ok_all_releases)
  qed
qed

lemma keep_current_release_iff:
  "(get_or_create_release env (Some rel) sz sealed = Inr (rel, sz, sealed))
     = (real sz < MAX_RELEASE_SIZE)"
  by (auto simp: get_or_create_release_def create_release_def MAX_RELEASE_SIZE_def
      split: sum.splits option.splits)

lemma tag_scenario:
  "strftime_tag (utcnow_release scenario_upload_env 0) = ''2024-01-05-120000''"
  by (simp add: strftime_tag_def scenario_upload_env_def eval_dec)

lemma upload_scenario:
  "upload_new_videos_to_release scenario_upload_env scenario_ingested
     = Inr \<lparr>up_videos = [published_A, published_B], up_releases = [scenario_release],
            up_file = scenario_published\<rparr>"
proof -
  have env: "file_stat scenario_upload_env ''/repo/downloads/A.mp3'' = Some 524288000"
    "file_stat scenario_upload_env ''/repo/downloads/B.mp3'' = Some 2097152000"
    "create_git_release scenario_upload_env = (\<lambda>tag. None)"
    "upload_asset scenario_upload_env = (\<lambda>tag path. Inr (''https://github.invalid/'' @ tag @ path))"
    "GITHUB_TOKEN scenario_upload_env = Some ''ghs_demo''"
    "GITHUB_REPOSITORY scenario_upload_env = Some ''owner/repo''"
    by (simp_all add: scenario_upload_env_def)
  have iso: "isoformat (utcnow_upload_save scenario_upload_env) = ''2024-01-05T12:30:00''"
    by (simp add: isoformat_def scenario_upload_env_def eval_dec)
  have g0: "get_or_create_release scenario_upload_env None 0 []
             = Inr (\<lparr>tag_name = ''release-2024-01-05-120000'', uploaded = []\<rparr>, 0, [])"
    by (simp add: get_or_create_release_def create_release_def env tag_scenario)
  have g1: "get_or_create_release scenario_upload_env
               (Some \<lparr>tag_name = ''release-2024-01-05-120000'', uploaded = [(''A'', 524288000)]\<rparr>)
               524288000 []
             = Inr (\<lparr>tag_name = ''release-2024-01-05-120000'', uploaded = [(''A'', 524288000)]\<rparr>,
                    524288000, [])"
    by (simp add: get_or_create_release_def MAX_RELEASE_SIZE_def)
  have loop: "upload_loop scenario_upload_env [record_A, record_B] (None, 0, [])
               = Inr ([published_A, published_B], (Some scenario_release, 2621440000, []))"
    by (simp add: record_A_def record_B_def published_A_def published_B_def scenario_release_def
        upload_path_def get_default_def truthy_def env g0 g1 upload_file_to_release_def)
  have todo: "filter (\<lambda>v. \<not> truthy (audio_url v)) [record_A, record_B] = [record_A, record_B]"
    by (simp add: record_A_def record_B_def truthy_def)
  show ?thesis
    by (simp add: upload_new_videos_to_release_def get_github_token_def get_repo_info_def env
        scenario_ingested_def load_state_def todo loop all_releases_def save_state_def
        save_state_upto_def new_state_def iso scenario_published_def
        del: upload_loop.simps filter.simps)
qed

lemma ingested_unset: "audio_url (ingested env v) = None \<and> release_tag (ingested env v) = None"
  by (simp add: ingested_def make_video_info_def)

lemma download_scenario: "download_main scenario_ingest_env Missing = (0, scenario_ingested)"
proof -
  have u: "get_playlist_url scenario_ingest_env = Inr ''https://www.youtube.com/playlist?list=PLdemo''"
    by (simp add: get_playlist_url_def scenario_ingest_env_def)
  have e: "extract_info scenario_ingest_env ''https://www.youtube.com/playlist?list=PLdemo''
             = Some scenario_playlist"
    by (simp add: scenario_ingest_env_def)
  have n: "new_videos {} [item_A, item_B, item_C] = [item_A, item_B, item_C]"
    by (simp add: new_videos_def)
  have p: "process_new_videos scenario_ingest_env Missing = Inr [record_A, record_B]"
    by (simp add: process_new_videos_def u e get_processed_video_ids_def load_state_def
        empty_state_def fetch_scenario n process_loop_eq acquired_scenario ingested_A ingested_B)
  have i: "isoformat (utcnow_save scenario_ingest_env) = ''2024-01-05T10:05:00''"
    by (simp add: isoformat_def scenario_ingest_env_def eval_dec)
  show ?thesis
    by (simp add: download_main_def p load_state_def empty_state_def save_state_def
        save_state_upto_def new_state_def i scenario_ingested_def)
qed

section \<open>The states that the scripts produce\<close>

lemma upload_rel_paired: "upload_rel env v v' \<Longrightarrow> paired v \<Longrightarrow> paired v'"
  by (auto simp: upload_rel_def paired_def truthy_def)

lemma reachable_paired:
  "reachable f \<Longrightarrow> load_state f = Inr d \<Longrightarrow> v \<in> set (videos d) \<Longrightarrow> paired v"
proof (induction arbitrary: d v rule: reachable.induct)
  case fresh
  then show ?case by (auto simp: load_state_def empty_state_def)
next
  case initialized
  then show ?case by (auto simp: load_state_def empty_state_def)
next
  case (downloaded f env)
  show ?case
  proof (cases "process_new_videos env f")
    case (Inl e)
    with downloaded show ?thesis by (simp add: download_main_def)
  next
    case (Inr newly)
    show ?thesis
    proof (cases "newly = []")
      case True
      with Inr downloaded show ?thesis by (simp add: download_main_def)
    next
      case False
      from Inr obtain st where st: "load_state f = Inr st"
        and new: "\<forall>w \<in> set newly. paired w"
        by (auto elim!: process_new_videos_Inr simp: paired_def ingested_unset)
      from Inr False st downloaded.prems(1) have "videos d = videos st @ newly"
        by (auto simp: download_main_def save_state_def save_state_upto_def new_state_def
            load_state_def [of "Stored _"])
      with downloaded.prems(2) downloaded.IH [OF st] new show ?thesis by auto
    qed
  qed
next
  case (uploaded f env)
  show ?case
  proof (cases "upload_new_videos_to_release env f")
    case (Inl e)
    with uploaded show ?thesis by (simp add: upload_main_def)
  next
    case (Inr r)
    then obtain st where st: "load_state f = Inr st"
      by (auto simp: upload_new_videos_to_release_def split: sum.splits)
    have rel: "list_all2 (upload_rel env) (videos st) (up_videos r)"
      by (rule upload_new_videos_rel [OF Inr st])
    have all: "\<forall>w \<in> set (up_videos r). paired w"
    proof
      fix w assume "w \<in> set (up_videos r)"
      then obtain i where i: "i < length (up_videos r)" "w = up_videos r ! i"
        by (auto simp: in_set_conv_nth)
      with rel have "upload_rel env (videos st ! i) w" "i < length (videos st)"
        by (auto simp: list_all2_conv_all_nth)
      with uploaded.IH [OF st, of "videos st ! i"] show "paired w"
        by (auto intro: upload_rel_paired)
    qed
    from Inr st show ?thesis
    proof (cases rule: upload_new_videos_cases)
      case noop
      with Inr uploaded show ?thesis by (simp add: upload_main_def)
    next
      case (run st')
      with Inr uploaded.prems(1) have "videos d = up_videos r"
        by (auto simp: upload_main_def save_state_def save_state_upto_def new_state_def
            load_state_def [of "Stored _"])
      with all uploaded.prems(2) show ?thesis by simp
    qed
  qed
qed

lemma second_run_unchanged:
  assumes "same_inputs env env'" "fst (download_main env f) = 0"
  shows "process_new_videos env' (snd (download_main env f)) = Inr []
          \<and> download_main env' (snd (download_main env f)) = (0, snd (download_main env f))"
  using second_run_empty [OF assms] by (simp add: download_main_def)

lemma published_untouched:
  assumes "upload_new_videos_to_release uenv f = Inr r" "load_state f = Inr d"
  shows "list_all2 (\<lambda>v v'. truthy (audio_url v) \<longrightarrow> v' = v) (videos d) (up_videos r)"
  using upload_new_videos_rel [OF assms]
  by (rule list_all2_mono) (simp add: upload_rel_def)

lemma tagged_untouched:
  assumes re: "reachable f" and u: "upload_new_videos_to_release uenv f = Inr r"
      and l: "load_state f = Inr d"
  shows "list_all2 (\<lambda>v v'. release_tag v \<noteq> None \<longrightarrow> v' = v) (videos d) (up_videos r)"
proof -
  from published_untouched [OF u l] have len: "length (videos d) = length (up_videos r)"
    and nth: "\<forall>i < length (videos d). truthy (audio_url (videos d ! i)) \<longrightarrow> up_videos r ! i = videos d ! i"
    by (simp_all add: list_all2_conv_all_nth)
  show ?thesis
    unfolding list_all2_conv_all_nth
  proof (intro conjI allI impI)
    show "length (videos d) = length (up_videos r)" by (rule len)
  next
    fix i assume i: "i < length (videos d)" and t: "release_tag (videos d ! i) \<noteq> None"
    from i have "videos d ! i \<in> set (videos d)" by simp
    from reachable_paired [OF re l this] t have "truthy (audio_url (videos d ! i))"
      by (simp add: paired_def)
    with nth i show "up_videos r ! i = videos d ! i" by simp
  qed
qed

lemma batcher_noop:
  assumes l: "load_state f = Inr d" and all: "\<forall>v \<in> set (videos d). truthy (audio_url v)"
  shows "snd (upload_main uenv f) = f
          \<and> (\<forall>r. upload_new_videos_to_release uenv f = Inr r
                \<longrightarrow> r = \<lparr>up_videos = videos d, up_releases = [], up_file = f\<rparr>)"
proof -
  from all have "filter (\<lambda>v. \<not> truthy (audio_url v)) (videos d) = []"
    by (simp add: filter_empty_conv)
  with l show ?thesis
    by (simp add: upload_main_def upload_new_videos_to_release_def split: sum.splits)
qed


lemma reachable_set_together:
  assumes "reachable f" "load_state f = Inr d" "v \<in> set (videos d)"
  shows "paired v \<and> (audio_url v = None \<longleftrightarrow> release_tag v = None)
          \<and> (truthy (audio_url v) \<longleftrightarrow> truthy (release_tag v))"
  using reachable_paired [OF assms] by (auto simp: paired_def truthy_def)

lemma new_records_unset:
  assumes "process_new_videos env f = Inr newly" "v \<in> set newly"
  shows "audio_url v = None \<and> release_tag v = None"
  using assms by (auto elim!: process_new_videos_Inr simp: ingested_unset)

lemma upload_sets_both:
  assumes "upload_new_videos_to_release uenv f = Inr r" "load_state f = Inr d"
  shows "list_all2
            (\<lambda>v v'. v' = v \<or>
               (\<exists>url tag. url \<noteq> [] \<and> tag \<noteq> [] \<and>
                  v' = v\<lparr>audio_url := Some url, release_tag := Some tag\<rparr>))
            (videos d) (up_videos r)"
  using upload_new_videos_rel [OF assms]
  by (rule list_all2_mono) (auto simp: upload_rel_def)

section \<open>The order of the feed\<close>

lemma sort_reverse_sorted: "sorted_wrt (\<lambda>a b. key b \<le> key a) (sort_reverse key xs)"
proof -
  have "sorted (map key (sort_key key (rev xs)))" by simp
  then have "sorted_wrt (\<lambda>a b. key a \<le> key b) (sort_key key (rev xs))"
    by (simp add: sorted_wrt_map)
  then show ?thesis
    by (simp add: sort_reverse_def sorted_wrt_rev)
qed

lemma sort_reverse_stable:
  "filter (\<lambda>y. key y = k) (sort_reverse key xs) = filter (\<lambda>y. key y = k) xs"
  by (simp add: sort_reverse_def rev_filter [symmetric] sort_key_stable)

lemma mset_sort_reverse: "mset (sort_reverse key xs) = mset xs"
  by (simp add: sort_reverse_def)

lemma add_episodes_ids:
  "add_episodes rfc2822 vs = Inr eps \<Longrightarrow>
     map ep_id eps = map video_id (filter (\<lambda>v. truthy (audio_url v)) vs)"
proof (induction vs arbitrary: eps)
  case Nil
  then show ?case by simp
next
  case (Cons v vs)
  then show ?case
    by (auto simp: add_episode_to_feed_def split: sum.splits if_splits option.splits)
qed

lemma parse_upload_date_cases:
  "(upload_date = Some s \<and> length s = 8 \<and> strptime s = Some d
      \<longrightarrow> parse_upload_date strptime now upload_date = d)
   \<and> (upload_date = None \<or> (upload_date = Some s \<and> (length s \<noteq> 8 \<or> strptime s = None))
      \<longrightarrow> parse_upload_date strptime now upload_date = now)"
  by (auto simp: parse_upload_date_def)

lemma uploaded_videos_Inr:
  assumes "uploaded_videos vs = Inr out"
  shows "mset out = mset (filter (\<lambda>v. truthy (audio_url v)) vs)"
    and "sorted_wrt (\<lambda>a b. get_default (feed_sort_key a) [] \<ge> get_default (feed_sort_key b) []) out"
    and "filter (\<lambda>v. get_default (feed_sort_key v) [] = k) out
           = filter (\<lambda>v. get_default (feed_sort_key v) [] = k) (filter (\<lambda>v. truthy (audio_url v)) vs)"
proof -
  from assms have out: "out = sort_reverse (\<lambda>v. get_default (feed_sort_key v) [])
                          (filter (\<lambda>v. truthy (audio_url v)) vs)"
    by (simp add: uploaded_videos_def split: if_splits)
  show "mset out = mset (filter (\<lambda>v. truthy (audio_url v)) vs)"
    by (simp add: out mset_sort_reverse)
  show "sorted_wrt (\<lambda>a b. get_default (feed_sort_key a) [] \<ge> get_default (feed_sort_key b) []) out"
    unfolding out by (rule sort_reverse_sorted)
  show "filter (\<lambda>v. get_default (feed_sort_key v) [] = k) out
           = filter (\<lambda>v. get_default (feed_sort_key v) [] = k) (filter (\<lambda>v. truthy (audio_url v)) vs)"
    unfolding out by (rule sort_reverse_stable)
qed

lemma feed_example:
  "uploaded_videos
     [feed_record ''R1'' ''2024-01-03T00:00:00Z'',
      feed_record ''R2'' ''2024-01-01T00:00:00Z'',
      record_B,
      feed_record ''R3'' ''2024-01-02T00:00:00Z'',
      feed_record ''R4'' ''2024-01-02T00:00:00Z'']
   = Inr [feed_record ''R1'' ''2024-01-03T00:00:00Z'',
      feed_record ''R3'' ''2024-01-02T00:00:00Z'',
      feed_record ''R4'' ''2024-01-02T00:00:00Z'',
      feed_record ''R2'' ''2024-01-01T00:00:00Z'']"
  by (simp add: uploaded_videos_def sort_reverse_def feed_record_def published_A_def record_A_def
      record_B_def truthy_def feed_sort_key_def get_default_def)

lemma null_date_breaks_sort:
  "uploaded_videos [published_A, published_B\<lparr>pub_date := Null\<rparr>] = Inl TypeError"
  by (simp add: uploaded_videos_def published_A_def published_B_def record_A_def record_B_def
      truthy_def feed_sort_key_def)

section \<open>The claims\<close>

text \<open>
  C1, as the code has it. The capacity check comes before each upload and reads only the
  size the current release has reached: the release is kept exactly when that size is below
  \<open>MAX_RELEASE_SIZE\<close>, whatever the size of the file about to be uploaded. So every upload into
  a release began while the release held less than the limit, and the files a release held
  before its last one add up to less than the limit. No file is turned away for its size: a
  record without a URL whose file is there and whose upload succeeds in every release has a URL
  after the run.
\<close>

theorem capacity_checked_on_current_size:
  "(get_or_create_release env (Some rel) sz sealed = Inr (rel, sz, sealed))
     = (real sz < MAX_RELEASE_SIZE)
   \<and> (upload_new_videos_to_release env f = Inr r \<and> b \<in> set (up_releases r)
        \<longrightarrow> filled_below_limit b
            \<and> real (sum_list (map snd (butlast (uploaded b)))) < MAX_RELEASE_SIZE)
   \<and> (upload_new_videos_to_release env f = Inr r \<and> load_state f = Inr d
        \<longrightarrow> list_all2
              (\<lambda>v v'. \<not> truthy (audio_url v) \<and> file_stat env (upload_path v) \<noteq> None \<and>
                       (\<forall>tag. \<exists>url. url \<noteq> [] \<and> upload_asset env tag (upload_path v) = Inr url)
                       \<longrightarrow> truthy (audio_url v'))
              (videos d) (up_videos r))"
proof -
  have "list_all2
          (\<lambda>v v'. \<not> truthy (audio_url v) \<and> file_stat env (upload_path v) \<noteq> None \<and>
                   (\<forall>tag. \<exists>url. url \<noteq> [] \<and> upload_asset env tag (upload_path v) = Inr url)
                   \<longrightarrow> truthy (audio_url v'))
          (videos d) (up_videos r)"
    if "upload_new_videos_to_release env f = Inr r" "load_state f = Inr d"
    using upload_new_videos_rel [OF that]
    by (rule list_all2_mono) (simp add: upload_rel_def)
  then show ?thesis
    using keep_current_release_iff upload_new_videos_filled filled_below_limit_butlast
    by blast
qed


theorem capacity_checked_on_current_size_witness:
  "upload_new_videos_to_release scenario_upload_env scenario_ingested
     = Inr \<lparr>up_videos = [published_A, published_B], up_releases = [scenario_release],
            up_file = scenario_published\<rparr>
   \<and> real (sum_list (map snd (butlast (uploaded scenario_release)))) < MAX_RELEASE_SIZE
   \<and> MAX_RELEASE_SIZE < real (file_size published_B)
   \<and> truthy (audio_url published_B)"
proof -
  have "scenario_release \<in> set (up_releases \<lparr>up_videos = [published_A, published_B],
          up_releases = [scenario_release], up_file = scenario_published\<rparr>)"
    by simp
  with capacity_checked_on_current_size
         [of scenario_upload_env scenario_release 0 "[]" scenario_ingested
             "\<lparr>up_videos = [published_A, published_B], up_releases = [scenario_release],
               up_file = scenario_published\<rparr>" scenario_release]
       upload_scenario
  show ?thesis
    by (simp add: published_B_def record_B_def truthy_def MAX_RELEASE_SIZE_def)
qed

text \<open>
  C1 as stated fails in the scenario of the specification: the release that holds the 500 MB
  of \<open>A\<close> receives the 2000 MB of \<open>B\<close> as well, and ends above the limit.
\<close>

theorem release_exceeds_capacity:
  "upload_new_videos_to_release scenario_upload_env scenario_ingested
     = Inr \<lparr>up_videos = [published_A, published_B], up_releases = [scenario_release],
            up_file = scenario_published\<rparr>
   \<and> uploaded scenario_release = [(''A'', 524288000), (''B'', 2097152000)]
   \<and> cumulative_bytes scenario_release = 2621440000
   \<and> MAX_RELEASE_SIZE < real (cumulative_bytes scenario_release)
   \<and> release_tag published_A = release_tag published_B"
  by (simp add: upload_scenario scenario_release_def cumulative_bytes_def MAX_RELEASE_SIZE_def
      published_A_def published_B_def)

text \<open>
  C2. Running the pipeline again on unchanged inputs changes nothing. A second ingestion
  run that meets the same playlist, the same download outcomes and the same files, on the
  state the first run left, creates no record and leaves the state file as it is. The
  batcher never touches a record that has a public URL, so in the states the scripts
  produce a release tag, once set, stays; and on a state in which every record has a public
  URL the batcher creates no release, changes no record and does not write the state file.
\<close>

theorem rerun_is_idempotent:
  "(same_inputs env env' \<and> fst (download_main env f) = 0
      \<longrightarrow> process_new_videos env' (snd (download_main env f)) = Inr []
          \<and> download_main env' (snd (download_main env f)) = (0, snd (download_main env f)))
   \<and> (upload_new_videos_to_release uenv f = Inr r \<and> load_state f = Inr d
      \<longrightarrow> list_all2 (\<lambda>v v'. truthy (audio_url v) \<longrightarrow> v' = v) (videos d) (up_videos r))
   \<and> (reachable f \<and> upload_new_videos_to_release uenv f = Inr r \<and> load_state f = Inr d
      \<longrightarrow> list_all2 (\<lambda>v v'. release_tag v \<noteq> None \<longrightarrow> v' = v) (videos d) (up_videos r))
   \<and> (load_state f = Inr d \<and> (\<forall>v \<in> set (videos d). truthy (audio_url v))
      \<longrightarrow> snd (upload_main uenv f) = f
          \<and> (\<forall>r. upload_new_videos_to_release uenv f = Inr r
                \<longrightarrow> r = \<lparr>up_videos = videos d, up_releases = [], up_file = f\<rparr>))"
  using second_run_unchanged [of env env' f] published_untouched [of uenv f r d]
    tagged_untouched [of f uenv r d] batcher_noop [of f d uenv]
  by (intro conjI) blast+

theorem rerun_is_idempotent_witness:
  "download_main scenario_ingest_env Missing = (0, scenario_ingested)
   \<and> process_new_videos scenario_ingest_env scenario_ingested = Inr []
   \<and> download_main scenario_ingest_env scenario_ingested = (0, scenario_ingested)
   \<and> upload_new_videos_to_release scenario_upload_env scenario_published
        = Inr \<lparr>up_videos = [published_A, published_B], up_releases = [],
               up_file = scenario_published\<rparr>
   \<and> snd (upload_main scenario_upload_env scenario_published) = scenario_published"
proof -
  have s: "same_inputs scenario_ingest_env scenario_ingest_env"
    by (simp add: same_inputs_def)
  have l: "load_state scenario_published
             = Inr \<lparr>last_updated = Some ''2024-01-05T12:30:00Z'',
                    videos = [published_A, published_B]\<rparr>"
    by (simp add: load_state_def scenario_published_def)
  have t: "truthy (audio_url published_A)" "truthy (audio_url published_B)"
    by (simp_all add: published_A_def published_B_def truthy_def)
  have u: "upload_new_videos_to_release scenario_upload_env scenario_published
        = Inr \<lparr>up_videos = [published_A, published_B], up_releases = [],
               up_file = scenario_published\<rparr>"
    using l t
    by (simp add: upload_new_videos_to_release_def get_github_token_def get_repo_info_def
        scenario_upload_env_def)
  from rerun_is_idempotent [of scenario_ingest_env scenario_ingest_env Missing]
       s download_scenario
  have i: "process_new_videos scenario_ingest_env scenario_ingested = Inr []
     \<and> download_main scenario_ingest_env scenario_ingested = (0, scenario_ingested)"
    by simp
  from rerun_is_idempotent
         [where f = scenario_published and uenv = scenario_upload_env and d =
             "\<lparr>last_updated = Some ''2024-01-05T12:30:00Z'',
               videos = [published_A, published_B]\<rparr>"]
       l t
  have n: "snd (upload_main scenario_upload_env scenario_published) = scenario_published"
    by simp
  from i n u download_scenario show ?thesis by simp
qed

text \<open>
  C3, as the code has it. \<open>save_state\<close> overwrites the state file in place. When it
  completes, the file holds the complete list of records it was given and
  \<open>last_updated\<close> is the current UTC time in ISO format followed by \<open>Z\<close>. A run that
  stops inside \<open>save_state\<close> leaves the old file, the new file, or a file that is not JSON.
\<close>

theorem save_state_overwrites_in_place:
  "save_state now vs f = Stored \<lparr>last_updated = Some (isoformat now @ ''Z''), videos = vs\<rparr>
   \<and> load_state (save_state now vs f)
        = Inr \<lparr>last_updated = Some (isoformat now @ ''Z''), videos = vs\<rparr>
   \<and> (save_state_upto p now vs f = f \<or> save_state_upto p now vs f = Malformed
        \<or> save_state_upto p now vs f = save_state now vs f)"
  by (cases p) (simp_all add: load_state_def save_state_def save_state_upto_def new_state_def)

text \<open>
  C3 as stated fails: a run that stops right after \<open>open(state_file, 'w')\<close> leaves an
  empty file, which is neither the old state nor the new one, and the next \<open>load_state\<close>
  returns the empty state.
\<close>

theorem interrupted_save_loses_state:
  "save_state_upto After_Open (utcnow_upload_save scenario_upload_env) [published_A, published_B]
       scenario_ingested = Malformed
   \<and> Malformed \<noteq> scenario_ingested
   \<and> Malformed \<noteq> save_state (utcnow_upload_save scenario_upload_env) [published_A, published_B]
         scenario_ingested
   \<and> load_state scenario_ingested
        = Inr \<lparr>last_updated = Some ''2024-01-05T10:05:00Z'', videos = [record_A, record_B]\<rparr>
   \<and> load_state Malformed = Inr \<lparr>last_updated = None, videos = []\<rparr>"
  by (simp add: save_state_upto_def save_state_def scenario_ingested_def load_state_def
      empty_state_def)

text \<open>
  C4, as the code has it. The playlist diff is the list of the fetched items whose id is not
  the id of a stored record, in the order of the playlist; an item listed twice in the fetch
  is in the diff twice.
\<close>

theorem playlist_diff:
  "new_videos ids playlist = filter (\<lambda>v. pv_video_id v \<notin> ids) playlist
   \<and> subseq (new_videos ids playlist) playlist
   \<and> set (new_videos ids playlist) = {v \<in> set playlist. pv_video_id v \<notin> ids}
   \<and> count_list (new_videos ids playlist) v
        = (if pv_video_id v \<in> ids then 0 else count_list playlist v)
   \<and> (get_processed_video_ids f = Inr ids \<and> load_state f = Inr state
        \<longrightarrow> ids = video_id ` set (videos state))"
proof -
  have "count_list (filter (\<lambda>v. pv_video_id v \<notin> ids) playlist) v
          = (if pv_video_id v \<in> ids then 0 else count_list playlist v)"
    by (induction playlist) auto
  then show ?thesis
    by (auto simp: new_videos_def get_processed_video_ids_def)
qed

theorem playlist_diff_witness:
  "get_processed_video_ids scenario_ingested = Inr {''A'', ''B''}
   \<and> new_videos {''A'', ''B''} [item_A, item_B, item_C] = [item_C]
   \<and> subseq [item_C] [item_A, item_B, item_C]"
proof -
  have g: "get_processed_video_ids scenario_ingested = Inr {''A'', ''B''}"
    by (simp add: get_processed_video_ids_def load_state_def scenario_ingested_def record_A_def
        record_B_def)
  have n: "new_videos {''A'', ''B''} [item_A, item_B, item_C] = [item_C]"
    by (simp add: new_videos_def item_A_def item_B_def item_C_def)
  from playlist_diff [of "{''A'', ''B''}" "[item_A, item_B, item_C]" item_C scenario_ingested
         "\<lparr>last_updated = Some ''2024-01-05T10:05:00Z'', videos = [record_A, record_B]\<rparr>"]
       g n
  show ?thesis by simp
qed

text \<open>
  C4 as stated fails: a playlist that lists \<open>A\<close> twice yields \<open>A\<close> twice in the diff, and
  the run creates two records with the id \<open>A\<close>.
\<close>

theorem duplicate_ids_are_kept:
  "fetch_playlist_videos (Some duplicate_playlist) = Inr [item_A, item_A]
   \<and> new_videos (set (map video_id (videos empty_state))) [item_A, item_A] = [item_A, item_A]
   \<and> process_new_videos (scenario_ingest_env\<lparr>extract_info := \<lambda>url. Some duplicate_playlist\<rparr>) Missing
        = Inr [record_A, record_A]
   \<and> map video_id [record_A, record_A] = [''A'', ''A'']"
proof -
  let ?env = "scenario_ingest_env\<lparr>extract_info := \<lambda>url. Some duplicate_playlist\<rparr>"
  have a: "acquired ?env item_A"
    by (simp add: acquired_def scenario_ingest_env_def item_A_def download_video_audio_def
        mp3_file_def)
  have i: "ingested ?env item_A = record_A"
    using ingested_A
    by (simp add: ingested_def make_video_info_def get_full_video_metadata_def mp3_file_def
        scenario_ingest_env_def)
  have n: "new_videos (set (map video_id (videos empty_state))) [item_A, item_A] = [item_A, item_A]"
    by (simp add: new_videos_def empty_state_def)
  have u: "get_playlist_url ?env = Inr ''https://www.youtube.com/playlist?list=PLdemo''"
    by (simp add: get_playlist_url_def scenario_ingest_env_def)
  have "process_new_videos ?env Missing = Inr [record_A, record_A]"
    using a i n
    by (simp add: process_new_videos_def u get_processed_video_ids_def load_state_def
        fetch_duplicate process_loop_eq)
  with n show ?thesis
    by (simp add: fetch_duplicate record_A_def)
qed

text \<open>
  C5 at an input where the code departs from it. The state holds two published records: one
  discovered half a second after midnight of 1 January 2024, with no upload date, and one
  with the upload date \<open>20240101\<close>, which \<open>parse_upload_date\<close> turns into that midnight.
  \<open>isoformat\<close> prints no fractional second when the microsecond is zero, and \<open>Z\<close> sorts
  after the full stop, so the list that the code sorts newest first, and the entries added
  from it, have the older record before the newer one.
\<close>

theorem feed_order_follows_text_not_time:
  "datetime_less stamp_midnight stamp_later
   \<and> parse_upload_date (\<lambda>s. Some stamp_midnight) stamp_later (Some ''20240101'') = stamp_midnight
   \<and> parse_upload_date (\<lambda>s. Some stamp_midnight) stamp_later None = stamp_later
   \<and> isoformat stamp_midnight @ ''Z'' = ''2024-01-01T00:00:00Z''
   \<and> isoformat stamp_later @ ''Z'' = ''2024-01-01T00:00:00.500000Z''
   \<and> load_state midnight_state
        = Inr \<lparr>last_updated = None,
               videos = [feed_record ''later'' ''2024-01-01T00:00:00.500000Z'',
                         feed_record ''midnight'' ''2024-01-01T00:00:00Z'']\<rparr>
   \<and> uploaded_videos
        [feed_record ''later'' ''2024-01-01T00:00:00.500000Z'',
         feed_record ''midnight'' ''2024-01-01T00:00:00Z'']
      = Inr [feed_record ''midnight'' ''2024-01-01T00:00:00Z'',
             feed_record ''later'' ''2024-01-01T00:00:00.500000Z'']
   \<and> generate_rss_feed (Some scenario_config) scenario_rfc2822 midnight_state
      = Inr [episode_A\<lparr>ep_id := ''midnight'', ep_pubDate := ''Mon, 01 Jan 2024 00:00:00 GMT''\<rparr>,
             episode_A\<lparr>ep_id := ''later'', ep_pubDate := ''Mon, 01 Jan 2024 00:00:00 GMT''\<rparr>]"
proof -
  have less: "datetime_less stamp_midnight stamp_later"
    by (simp add: datetime_less_def stamp_midnight_def stamp_later_def)
  have iso1: "isoformat stamp_midnight @ ''Z'' = ''2024-01-01T00:00:00Z''"
    by (simp add: isoformat_def stamp_midnight_def eval_dec)
  have iso2: "isoformat stamp_later @ ''Z'' = ''2024-01-01T00:00:00.500000Z''"
    by (simp add: isoformat_def stamp_later_def eval_dec)
  have l: "load_state midnight_state
        = Inr \<lparr>last_updated = None,
               videos = [feed_record ''later'' ''2024-01-01T00:00:00.500000Z'',
                         feed_record ''midnight'' ''2024-01-01T00:00:00Z'']\<rparr>"
    by (simp add: load_state_def midnight_state_def)
  have u: "uploaded_videos
        [feed_record ''later'' ''2024-01-01T00:00:00.500000Z'',
         feed_record ''midnight'' ''2024-01-01T00:00:00Z'']
      = Inr [feed_record ''midnight'' ''2024-01-01T00:00:00Z'',
             feed_record ''later'' ''2024-01-01T00:00:00.500000Z'']"
    by (simp add: uploaded_videos_def sort_reverse_def feed_record_def published_A_def
        record_A_def truthy_def feed_sort_key_def get_default_def)
  have e1: "add_episode_to_feed scenario_rfc2822 (feed_record ''midnight'' ''2024-01-01T00:00:00Z'')
      = Inr (Some (episode_A\<lparr>ep_id := ''midnight'',
                     ep_pubDate := ''Mon, 01 Jan 2024 00:00:00 GMT''\<rparr>))"
    by (simp add: add_episode_to_feed_def feed_record_def published_A_def record_A_def
        episode_A_def episode_pub_date_def replace_Z_def truthy_def get_default_def
        scenario_rfc2822_def truncate_description_def eval_dec)
  have e2: "add_episode_to_feed scenario_rfc2822
              (feed_record ''later'' ''2024-01-01T00:00:00.500000Z'')
      = Inr (Some (episode_A\<lparr>ep_id := ''later'',
                     ep_pubDate := ''Mon, 01 Jan 2024 00:00:00 GMT''\<rparr>))"
    by (simp add: add_episode_to_feed_def feed_record_def published_A_def record_A_def
        episode_A_def episode_pub_date_def replace_Z_def truthy_def get_default_def
        scenario_rfc2822_def truncate_description_def eval_dec)
  have g: "generate_rss_feed (Some scenario_config) scenario_rfc2822 midnight_state
      = Inr [episode_A\<lparr>ep_id := ''midnight'', ep_pubDate := ''Mon, 01 Jan 2024 00:00:00 GMT''\<rparr>,
             episode_A\<lparr>ep_id := ''later'', ep_pubDate := ''Mon, 01 Jan 2024 00:00:00 GMT''\<rparr>]"
    by (simp add: generate_rss_feed_def load_podcast_config_def scenario_config_def l u e1 e2)
  from less iso1 iso2 l u g show ?thesis
    by (simp add: parse_upload_date_def)
qed

text \<open>
  C6. A description of more than 500 characters is rendered as its first 497 characters
  followed by \<open>...\<close>, 500 characters in all; a description of at most 500 characters is
  rendered as it is. The description of a record is \<open>video.get('description', '')\<close>.
\<close>

theorem description_truncation:
  assumes "add_episode_to_feed rfc2822 v = Inr (Some ep)"
  shows "(500 < length (get_default (description v) []) \<longrightarrow>
            ep_description ep = take 497 (get_default (description v) []) @ ''...'' \<and>
            length (ep_description ep) = 500) \<and>
         (length (get_default (description v) []) \<le> 500 \<longrightarrow>
            ep_description ep = get_default (description v) [])"
  using assms
  by (auto simp: add_episode_to_feed_def truncate_description_def split: if_splits sum.splits)

theorem description_truncation_witness:
  "add_episode_to_feed scenario_rfc2822 (published_A\<lparr>description := Some (replicate 600 (CHR ''a''))\<rparr>)
     = Inr (Some (episode_A\<lparr>ep_description := replicate 497 (CHR ''a'') @ ''...''\<rparr>))
   \<and> length (replicate 497 (CHR ''a'') @ ''...'') = 500
   \<and> add_episode_to_feed scenario_rfc2822 (published_A\<lparr>description := Some (replicate 400 (CHR ''b''))\<rparr>)
     = Inr (Some (episode_A\<lparr>ep_description := replicate 400 (CHR ''b'')\<rparr>))"
proof -
  let ?long = "published_A\<lparr>description := Some (replicate 600 (CHR ''a''))\<rparr>"
  let ?short = "published_A\<lparr>description := Some (replicate 400 (CHR ''b''))\<rparr>"
  have l: "add_episode_to_feed scenario_rfc2822 ?long
             = Inr (Some (episode_A\<lparr>ep_description := truncate_description (replicate 600 (CHR ''a''))\<rparr>))"
    by (rule add_episode_A)
  have s: "add_episode_to_feed scenario_rfc2822 ?short
             = Inr (Some (episode_A\<lparr>ep_description := truncate_description (replicate 400 (CHR ''b''))\<rparr>))"
    by (rule add_episode_A)
  from description_truncation [OF l] description_truncation [OF s] l s
  show ?thesis
    by (simp add: get_default_def)
qed

text \<open>
  C7, as the code has it. \<open>load_state\<close> returns the empty state when there is no state
  file and when the text of the file is not JSON; in the second case, and only then, it prints
  a warning. A completed \<open>save_state\<close> replaces whatever the file held by the new document.
\<close>

theorem load_state_recovers:
  "load_state Missing = Inr empty_state
   \<and> load_state Malformed = Inr empty_state
   \<and> load_state (save_state now vs f) = Inr \<lparr>last_updated = Some (isoformat now @ ''Z''), videos = vs\<rparr>
   \<and> fst (load_state_io path f) = load_state f
   \<and> snd (load_state_io path Missing) = []
   \<and> snd (load_state_io path Malformed)
        = [''Warning: Invalid JSON in '' @ path @ '', returning empty state'']
   \<and> (snd (load_state_io path f) = [] \<or> f = Malformed)"
  by (cases f)
     (simp_all add: load_state_def load_state_io_def save_state_def save_state_upto_def
       new_state_def)

text \<open>
  C7 as stated fails: a state file that cannot be opened, or whose bytes are not UTF-8,
  makes \<open>load_state\<close> raise.
\<close>

theorem load_state_raises_on_unreadable_file:
  "load_state Unreadable = Inl OSError \<and> load_state Undecodable = Inl UnicodeDecodeError"
  by (simp add: load_state_def)

text \<open>
  C8, as the code has it. An unavailable entry of the playlist (\<open>None\<close>, or an empty
  dictionary) is dropped and is never fatal: the fetch returns what it returns without the
  entry. When every other entry has an id and at least one entry is left, the fetch returns
  the items of these entries, in order.
\<close>

theorem unavailable_entries_are_dropped:
  "fetch_playlist_videos (Some (info\<lparr>info_entries := Some entries\<rparr>))
     = fetch_playlist_videos (Some (info\<lparr>info_entries := Some (filter (\<lambda>e. e \<noteq> None) entries)\<rparr>))
   \<and> ((\<forall>e. Some e \<in> set entries \<longrightarrow> entry_id e \<noteq> None) \<and> (\<exists>e. Some e \<in> set entries)
        \<longrightarrow> fetch_playlist_videos (Some (info\<lparr>info_entries := Some entries\<rparr>))
            = Inr (map (\<lambda>e. entry_video e (the (entry_id e))) [e. Some e \<leftarrow> entries]))"
proof -
  have drop:
    "fetch_playlist_videos (Some (info\<lparr>info_entries := Some entries\<rparr>))
       = fetch_playlist_videos (Some (info\<lparr>info_entries := Some (filter (\<lambda>e. e \<noteq> None) entries)\<rparr>))"
    by (simp add: fetch_playlist_videos_def get_default_def collect_entries_drop del: not_None_eq)
  have present:
    "fetch_playlist_videos (Some (info\<lparr>info_entries := Some entries\<rparr>))
       = Inr (map (\<lambda>e. entry_video e (the (entry_id e))) [e. Some e \<leftarrow> entries])"
    if ids: "\<forall>e. Some e \<in> set entries \<longrightarrow> entry_id e \<noteq> None" and one: "Some e0 \<in> set entries"
    for e0
  proof -
    from one have "[e. Some e \<leftarrow> entries] \<noteq> []"
      by (induction entries) auto
    with ids show ?thesis
      by (simp add: fetch_playlist_videos_def get_default_def collect_entries_present)
  qed
  from drop present show ?thesis by blast
qed

theorem unavailable_entries_are_dropped_witness:
  "fetch_playlist_videos (Some scenario_playlist) = Inr [item_A, item_B, item_C]
   \<and> fetch_playlist_videos (Some (scenario_playlist\<lparr>info_entries := Some
        [Some \<lparr>entry_id = Some ''A'', entry_title = Some ''Item A'',
               entry_upload_date = Some ''20240103''\<rparr>,
         Some \<lparr>entry_id = Some ''B'', entry_title = None, entry_upload_date = None\<rparr>,
         Some \<lparr>entry_id = Some ''C'', entry_title = Some ''Item C'',
               entry_upload_date = Some ''20240104''\<rparr>]\<rparr>))
      = Inr [item_A, item_B, item_C]"
  using unavailable_entries_are_dropped
          [where info = scenario_playlist and entries =
              "[Some \<lparr>entry_id = Some ''A'', entry_title = Some ''Item A'',
                       entry_upload_date = Some ''20240103''\<rparr>,
                None,
                Some \<lparr>entry_id = Some ''B'', entry_title = None, entry_upload_date = None\<rparr>,
                Some \<lparr>entry_id = Some ''C'', entry_title = Some ''Item C'',
                       entry_upload_date = Some ''20240104''\<rparr>]"]
        fetch_scenario
  by (simp add: scenario_playlist_def)

text \<open>
  C8 as stated fails: an entry that has no id is not dropped; \<open>entry['id']\<close> raises
  \<open>KeyError\<close> and the fetch returns nothing.
\<close>

theorem missing_id_is_fatal:
  "fetch_playlist_videos (Some broken_playlist) = Inl KeyError"
  by (simp add: fetch_playlist_videos_def broken_playlist_def scenario_playlist_def get_default_def)

text \<open>
  C9. In every state file that runs of the scripts produce, each record has its public URL
  and its release tag both unset or both set. Ingestion creates records with both unset; the
  batcher leaves a record as it is or sets both, to strings that are not empty, and changes
  nothing else.
\<close>

theorem url_and_tag_set_together:
  "(reachable f \<and> load_state f = Inr d \<and> v \<in> set (videos d)
      \<longrightarrow> paired v \<and> (audio_url v = None \<longleftrightarrow> release_tag v = None)
          \<and> (truthy (audio_url v) \<longleftrightarrow> truthy (release_tag v)))
   \<and> (process_new_videos env f = Inr newly \<and> v \<in> set newly
      \<longrightarrow> audio_url v = None \<and> release_tag v = None)
   \<and> (upload_new_videos_to_release uenv f = Inr r \<and> load_state f = Inr d
      \<longrightarrow> list_all2
            (\<lambda>v v'. v' = v \<or>
               (\<exists>url tag. url \<noteq> [] \<and> tag \<noteq> [] \<and>
                  v' = v\<lparr>audio_url := Some url, release_tag := Some tag\<rparr>))
            (videos d) (up_videos r))"
  using reachable_set_together [of f d v] new_records_unset [of env f newly v]
    upload_sets_both [of uenv f r d]
  by (intro conjI) blast+

theorem url_and_tag_set_together_witness:
  "reachable scenario_ingested \<and> reachable scenario_published
   \<and> paired record_A \<and> paired published_A \<and> paired published_B
   \<and> audio_url record_A = None \<and> release_tag record_A = None
   \<and> audio_url published_B
        = Some ''https://github.invalid/release-2024-01-05-120000/repo/downloads/B.mp3''
   \<and> release_tag published_B = Some ''release-2024-01-05-120000''"
proof -
  have r1: "reachable scenario_ingested"
    using reachable.downloaded [OF reachable.fresh, of scenario_ingest_env]
    by (simp add: download_scenario)
  have r2: "reachable scenario_published"
    using reachable.uploaded [OF r1, of scenario_upload_env]
    by (simp add: upload_main_def upload_scenario)
  have l1: "load_state scenario_ingested
             = Inr \<lparr>last_updated = Some ''2024-01-05T10:05:00Z'', videos = [record_A, record_B]\<rparr>"
    by (simp add: load_state_def scenario_ingested_def)
  have l2: "load_state scenario_published
             = Inr \<lparr>last_updated = Some ''2024-01-05T12:30:00Z'',
                    videos = [published_A, published_B]\<rparr>"
    by (simp add: load_state_def scenario_published_def)
  from url_and_tag_set_together
         [of scenario_ingested
             "\<lparr>last_updated = Some ''2024-01-05T10:05:00Z'', videos = [record_A, record_B]\<rparr>"
             record_A]
       url_and_tag_set_together
         [of scenario_published
             "\<lparr>last_updated = Some ''2024-01-05T12:30:00Z'',
               videos = [published_A, published_B]\<rparr>" published_A]
       url_and_tag_set_together
         [of scenario_published
             "\<lparr>last_updated = Some ''2024-01-05T12:30:00Z'',
               videos = [published_A, published_B]\<rparr>" published_B]
       r1 r2 l1 l2
  show ?thesis
    by (simp add: published_B_def record_A_def)
qed

text \<open>
  C10. \<open>get_audio_duration\<close> returns a string for every path and never raises; when the
  audio file cannot be opened or parsed the string is \<open>00:00:00\<close>. So the ingestion loop
  still appends the record of an acquired item whose audio file cannot be parsed, with the
  duration \<open>00:00:00\<close>, and goes on with the next item.
\<close>

theorem duration_never_raises:
  "(\<exists>s. get_audio_duration probe path = Inr s)
   \<and> (\<forall>e. probe path = Inl e \<longrightarrow> get_audio_duration probe path = Inr ''00:00:00'')
   \<and> (acquired env v \<and> mp3_length env (mp3_file env (pv_video_id v)) = Inl e
        \<longrightarrow> process_loop env (v # rest) newly = process_loop env rest (newly @ [ingested env v])
            \<and> duration (ingested env v) = ''00:00:00'')"
  by (auto simp: get_audio_duration_def process_loop_eq acquired_def ingested_def
      make_video_info_def split: sum.splits)

theorem duration_never_raises_witness:
  "get_audio_duration (mp3_length scenario_ingest_env) ''/repo/downloads/B.mp3'' = Inr ''00:00:00''
   \<and> process_loop scenario_ingest_env [item_B] [] = Inr [record_B]
   \<and> duration record_B = ''00:00:00''"
proof -
  have l: "mp3_length scenario_ingest_env (mp3_file scenario_ingest_env (pv_video_id item_B))
             = Inl MutagenError"
    by (simp add: scenario_ingest_env_def mp3_file_def item_B_def)
  have p: "mp3_file scenario_ingest_env (pv_video_id item_B) = ''/repo/downloads/B.mp3''"
    by (simp add: scenario_ingest_env_def mp3_file_def item_B_def)
  from duration_never_raises
         [of "mp3_length scenario_ingest_env" "''/repo/downloads/B.mp3''"
             scenario_ingest_env item_B MutagenError "[]" "[]"]
       l p acquired_scenario(2)
  show ?thesis
    by (simp add: ingested_B)
qed

end
